theory Spec2Isabelle
  imports Complex_Main "HOL-Library.Sublist" "HOL-Library.AList" "HOL-Library.Log_Nat"
begin

section \<open>JavaScript values used by the session code\<close>

text \<open>
  Strings are lists of code units. The model covers code units below 256 (Latin-1), which
  is what an Isabelle \<^typ>\<open>char\<close> holds; \<open>String.prototype.trim\<close> and
  \<open>toLowerCase\<close> are written out for that range.
\<close>

definition isWhiteSpace :: "char \<Rightarrow> bool" where
  "isWhiteSpace c =
     (let n = (of_char c :: nat) in (9 \<le> n \<and> n \<le> 13) \<or> n = 32 \<or> n = 160)"

definition trimStart :: "string \<Rightarrow> string" where
  "trimStart s = dropWhile isWhiteSpace s"

definition trimEnd :: "string \<Rightarrow> string" where
  "trimEnd s = rev (dropWhile isWhiteSpace (rev s))"

definition trim :: "string \<Rightarrow> string" where
  "trim s = trimEnd (trimStart s)"

definition toLowerCaseChar :: "char \<Rightarrow> char" where
  "toLowerCaseChar c =
     (let n = (of_char c :: nat) in
      if (65 \<le> n \<and> n \<le> 90) \<or> (192 \<le> n \<and> n \<le> 222 \<and> n \<noteq> 215)
      then char_of (n + 32) else c)"

definition toLowerCase :: "string \<Rightarrow> string" where
  "toLowerCase s = map toLowerCaseChar s"

text \<open>\<open>s.startsWith(p)\<close> and \<open>s.includes(p)\<close> (named includesStr), with the receiver second.\<close>

definition startsWith :: "string \<Rightarrow> string \<Rightarrow> bool" where
  "startsWith p s = prefix p s"

definition includesStr :: "string \<Rightarrow> string \<Rightarrow> bool" where
  "includesStr p s = sublist p s"

text \<open>
  A JavaScript number is an IEEE-754 double: a finite value, written as the rational it
  denotes, or one of the three non-finite values. Comparisons are exact and false as soon
  as one side is \<open>NaN\<close>. The sign of zero is not kept: no comparison depends on it.
\<close>

datatype jsnum = Num rat | NaN | PosInf | NegInf

text \<open>
  The result of an arithmetic operation is the exact result rounded to the nearest double,
  ties to the even mantissa: 53 significant bits, exponents down to \<open>-1074\<close> (subnormal
  numbers), overflow to infinity when the rounded value reaches \<open>2 ^ 1024\<close>, that is when
  its exponent is 1024 or more.
\<close>

definition roundHalfEven :: "rat \<Rightarrow> int" where
  "roundHalfEven x =
     (let f = \<lfloor>x\<rfloor>; d = x - of_int f in
      if d < 1 / 2 then f else if 1 / 2 < d then f + 1 else if even f then f else f + 1)"

text \<open>The exponent \<open>e\<close> of a positive value \<open>x\<close>: \<open>2 ^ e \<le> x < 2 ^ (e + 1)\<close>.\<close>

definition binaryExponent :: "rat \<Rightarrow> int" where
  "binaryExponent x =
     (let k = bitlen (fst (quotient_of x)) - bitlen (snd (quotient_of x))
      in if 2 powi k \<le> x then k else k - 1)"

definition toDouble :: "rat \<Rightarrow> jsnum" where
  "toDouble x =
     (if x = 0 then Num 0
      else
        (let a = \<bar>x\<bar>;
             q = max (binaryExponent a - 52) (- 1074);
             r = of_int (roundHalfEven (a / 2 powi q)) * 2 powi q
         in if 1024 \<le> binaryExponent r then (if 0 < x then PosInf else NegInf)
            else Num (if 0 < x then r else - r)))"

fun js_gt :: "jsnum \<Rightarrow> jsnum \<Rightarrow> bool" where
  "js_gt NaN _ = False"
| "js_gt _ NaN = False"
| "js_gt (Num a) (Num b) = (a > b)"
| "js_gt PosInf PosInf = False"
| "js_gt PosInf _ = True"
| "js_gt NegInf _ = False"
| "js_gt (Num a) PosInf = False"
| "js_gt (Num a) NegInf = True"

fun js_le :: "jsnum \<Rightarrow> jsnum \<Rightarrow> bool" where
  "js_le NaN _ = False"
| "js_le _ NaN = False"
| "js_le (Num a) (Num b) = (a \<le> b)"
| "js_le NegInf _ = True"
| "js_le PosInf PosInf = True"
| "js_le PosInf _ = False"
| "js_le (Num a) PosInf = True"
| "js_le (Num a) NegInf = False"

fun js_sub :: "jsnum \<Rightarrow> jsnum \<Rightarrow> jsnum" where
  "js_sub NaN _ = NaN"
| "js_sub _ NaN = NaN"
| "js_sub (Num a) (Num b) = toDouble (a - b)"
| "js_sub PosInf PosInf = NaN"
| "js_sub NegInf NegInf = NaN"
| "js_sub PosInf _ = PosInf"
| "js_sub NegInf _ = NegInf"
| "js_sub (Num a) PosInf = NegInf"
| "js_sub (Num a) NegInf = PosInf"

fun js_mul :: "jsnum \<Rightarrow> jsnum \<Rightarrow> jsnum" where
  "js_mul NaN _ = NaN"
| "js_mul _ NaN = NaN"
| "js_mul (Num a) (Num b) = toDouble (a * b)"
| "js_mul (Num a) PosInf = (if a = 0 then NaN else if a > 0 then PosInf else NegInf)"
| "js_mul (Num a) NegInf = (if a = 0 then NaN else if a > 0 then NegInf else PosInf)"
| "js_mul PosInf (Num b) = (if b = 0 then NaN else if b > 0 then PosInf else NegInf)"
| "js_mul NegInf (Num b) = (if b = 0 then NaN else if b > 0 then NegInf else PosInf)"
| "js_mul PosInf PosInf = PosInf"
| "js_mul NegInf NegInf = PosInf"
| "js_mul PosInf NegInf = NegInf"
| "js_mul NegInf PosInf = NegInf"

text \<open>\<open>Math.max(a, b)\<close>: \<open>NaN\<close> as soon as one argument is.\<close>

fun Math_max :: "jsnum \<Rightarrow> jsnum \<Rightarrow> jsnum" where
  "Math_max NaN _ = NaN"
| "Math_max _ NaN = NaN"
| "Math_max a b = (if js_gt b a then b else a)"

fun Number_isFinite :: "jsnum \<Rightarrow> bool" where
  "Number_isFinite (Num _) = True"
| "Number_isFinite _ = False"

text \<open>
  A parsed JSON5 value. An object is the list of its properties in enumeration order.
\<close>

datatype jsval =
    JUndefined
  | JNull
  | JBool bool
  | JNum jsnum
  | JStr string
  | JArr "jsval list"
  | JObj "(string \<times> jsval) list"

fun truthy :: "jsval \<Rightarrow> bool" where
  "truthy JUndefined = False"
| "truthy JNull = False"
| "truthy (JBool b) = b"
| "truthy (JNum (Num a)) = (a \<noteq> 0)"
| "truthy (JNum NaN) = False"
| "truthy (JNum _) = True"
| "truthy (JStr s) = (s \<noteq> [])"
| "truthy (JArr _) = True"
| "truthy (JObj _) = True"

section \<open>Key Normalizer (state-migrations.ts)\<close>

text \<open>
  \<open>SessionEntryLike\<close> is declared as an object with optional \<open>sessionId\<close> and
  \<open>updatedAt\<close> properties and any further properties. An entry is the list of its
  properties; the code tests the runtime type of both named properties, so they are
  arbitrary values here. A store (\<open>Record<string, SessionEntryLike>\<close>) is the list of its
  \<open>Object.entries\<close>, in that order.
\<close>

type_synonym SessionEntryLike = "(string \<times> jsval) list"
type_synonym SessionStoreLike = "(string \<times> SessionEntryLike) list"

definition getProp :: "string \<Rightarrow> (string \<times> jsval) list \<Rightarrow> jsval" where
  "getProp name obj = (case map_of obj name of None \<Rightarrow> JUndefined | Some v \<Rightarrow> v)"

definition isSurfaceGroupKey :: "string \<Rightarrow> bool" where
  "isSurfaceGroupKey key = (includesStr '':group:'' key \<or> includesStr '':channel:'' key)"

definition isLegacyGroupKey :: "string \<Rightarrow> bool" where
  "isLegacyGroupKey key =
     (let trimmed = trim key in
      if trimmed = [] then False
      else if startsWith ''group:'' trimmed then True
      else let lower = toLowerCase trimmed in
        if \<not> includesStr ''@g.us'' lower then False
        else if \<not> includesStr '':'' trimmed then True
        else if startsWith ''whatsapp:'' lower \<and> \<not> includesStr '':group:'' trimmed then True
        else False)"

text \<open>
  \<open>normalizeAgentId\<close> lives in routing/session-key.js, which is not part of the sources at
  hand; it is the parameter \<open>normalizeAgentId\<close> below.
\<close>

definition normalizeSessionKeyForAgent ::
  "(string \<Rightarrow> string) \<Rightarrow> string \<Rightarrow> string \<Rightarrow> string" where
  "normalizeSessionKeyForAgent normalizeAgentId key agentId =
     (let raw = trim key in
      if raw = [] then raw
      else if startsWith ''agent:'' raw then raw
      else if startsWith ''subagent:'' (toLowerCase raw) then
        (let rest = drop (length ''subagent:'') raw
         in ''agent:'' @ normalizeAgentId agentId @ '':subagent:'' @ rest)
      else if startsWith ''group:'' raw then
        (let id = trim (drop (length ''group:'') raw) in
         if id = [] then raw
         else let channel = (if includesStr ''@g.us'' (toLowerCase id) then ''whatsapp'' else ''unknown'')
           in ''agent:'' @ normalizeAgentId agentId @ '':'' @ channel @ '':group:'' @ id)
      else if \<not> includesStr '':'' raw \<and> includesStr ''@g.us'' (toLowerCase raw) then
        ''agent:'' @ normalizeAgentId agentId @ '':whatsapp:group:'' @ raw
      else
        (let whatsappGroup =
           (if startsWith ''whatsapp:'' (toLowerCase raw) \<and> includesStr ''@g.us'' (toLowerCase raw) then
              (let remainder = trim (drop (length ''whatsapp:'') raw);
                   cleaned = trim (if startsWith ''group:'' (toLowerCase remainder)
                                   then drop (length ''group:'') remainder else remainder)
               in if cleaned \<noteq> [] \<and> \<not> isSurfaceGroupKey raw
                  then Some (''agent:'' @ normalizeAgentId agentId @ '':whatsapp:group:'' @ cleaned)
                  else None)
            else None)
         in case whatsappGroup of
              Some k \<Rightarrow> k
            | None \<Rightarrow>
                if isSurfaceGroupKey raw then ''agent:'' @ normalizeAgentId agentId @ '':'' @ raw
                else raw))"


text \<open>
  Which return statement of \<open>normalizeSessionKeyForAgent\<close> a key reaches, numbered as the
  rules are in the design: 1 for a key that already starts with \<open>agent:\<close>, 2 to 6 for the
  five rewriting returns in source order, 7 for the final \<open>return raw\<close> (and for
  \<open>group:\<close> with an empty id, which returns \<open>raw\<close> too), 0 for a blank key.
\<close>

definition keyRule :: "string \<Rightarrow> nat" where
  "keyRule key =
     (let raw = trim key in
      if raw = [] then 0
      else if startsWith ''agent:'' raw then 1
      else if startsWith ''subagent:'' (toLowerCase raw) then 2
      else if startsWith ''group:'' raw then
        (if trim (drop (length ''group:'') raw) = [] then 7 else 3)
      else if \<not> includesStr '':'' raw \<and> includesStr ''@g.us'' (toLowerCase raw) then 4
      else if startsWith ''whatsapp:'' (toLowerCase raw) \<and> includesStr ''@g.us'' (toLowerCase raw)
              \<and> (let remainder = trim (drop (length ''whatsapp:'') raw);
                       cleaned = trim (if startsWith ''group:'' (toLowerCase remainder)
                                       then drop (length ''group:'') remainder else remainder)
                   in cleaned \<noteq> [] \<and> \<not> isSurfaceGroupKey raw) then 5
      else if isSurfaceGroupKey raw then 6
      else 7)"

section \<open>Sessions migration (state-migrations.ts)\<close>

text \<open>
  The loop body of \<open>pickLatestLegacyDirectEntry\<close>, on the pair \<open>(best, bestUpdated)\<close>. The
  guard \<open>!entry || typeof entry !== "object"\<close> never fires on a value of the declared
  type \<open>SessionEntryLike\<close>, which is an object.
\<close>

definition pickLatestStep ::
  "string \<times> SessionEntryLike \<Rightarrow> SessionEntryLike option \<times> jsnum
     \<Rightarrow> SessionEntryLike option \<times> jsnum" where
  "pickLatestStep ke acc =
     (let key = fst ke; entry = snd ke; normalized = trim key in
      if normalized = [] then acc
      else if normalized = ''global'' then acc
      else if startsWith ''agent:'' normalized then acc
      else if startsWith ''subagent:'' (toLowerCase normalized) then acc
      else if isLegacyGroupKey normalized \<or> isSurfaceGroupKey normalized then acc
      else
        (let updatedAt = (case getProp ''updatedAt'' entry of JNum n \<Rightarrow> n | _ \<Rightarrow> Num 0) in
         if js_gt updatedAt (snd acc) then (Some entry, updatedAt) else acc))"

definition pickLatestLegacyDirectEntry :: "SessionStoreLike \<Rightarrow> SessionEntryLike option" where
  "pickLatestLegacyDirectEntry store = fst (fold pickLatestStep store (None, Num (- 1)))"

text \<open>
  The keys that the scan does not skip, and the value it compares for an entry: the
  conditions and the \<open>updatedAt\<close> expression of the loop body, on their own.
\<close>

definition legacyDirectKey :: "string \<Rightarrow> bool" where
  "legacyDirectKey key =
     (let normalized = trim key in
      normalized \<noteq> [] \<and> normalized \<noteq> ''global'' \<and> \<not> startsWith ''agent:'' normalized
      \<and> \<not> startsWith ''subagent:'' (toLowerCase normalized)
      \<and> \<not> (isLegacyGroupKey normalized \<or> isSurfaceGroupKey normalized))"

definition comparedUpdatedAt :: "SessionEntryLike \<Rightarrow> jsnum" where
  "comparedUpdatedAt entry = (case getProp ''updatedAt'' entry of JNum n \<Rightarrow> n | _ \<Rightarrow> Num 0)"

text \<open>
  \<open>Date.now()\<close> reads a clock: \<open>clock t\<close> is the value of the \<open>t\<close>-th reading, and every
  function that reads it returns the number of readings made so far.
\<close>

type_synonym clock = "nat \<Rightarrow> rat"

text \<open>\<open>typeof v === "number" && Number.isFinite(v)\<close>.\<close>

definition isFiniteNumber :: "jsval \<Rightarrow> bool" where
  "isFiniteNumber v = (case v of JNum n \<Rightarrow> Number_isFinite n | _ \<Rightarrow> False)"

definition normalizeSessionEntry ::
  "clock \<Rightarrow> nat \<Rightarrow> SessionEntryLike \<Rightarrow> SessionEntryLike option \<times> nat" where
  "normalizeSessionEntry clock t entry =
     (let sessionId = (case getProp ''sessionId'' entry of JStr s \<Rightarrow> Some s | _ \<Rightarrow> None) in
      case sessionId of
        None \<Rightarrow> (None, t)
      | Some sid \<Rightarrow>
          if sid = [] then (None, t)
          else
            (let finite = isFiniteNumber (getProp ''updatedAt'' entry);
                 updatedAt = (if finite then getProp ''updatedAt'' entry
                              else JNum (Num (clock t)))
             in (Some (AList.update ''updatedAt'' updatedAt
                        (AList.update ''sessionId'' (JStr sid) entry)),
                 if finite then t else Suc t)))"

text \<open>The object spread \<open>{ ...base, ...over }\<close>.\<close>

definition spread :: "('k \<times> 'v) list \<Rightarrow> ('k \<times> 'v) list \<Rightarrow> ('k \<times> 'v) list" where
  "spread base over = fold (\<lambda>kv acc. AList.update (fst kv) (snd kv) acc) over base"

text \<open>
  The properties that an object created by \<open>{}\<close> inherits from \<open>Object.prototype\<close> (as
  Node.js defines it, and no code of the program adds to it). Each is a function, and
  \<open>__proto__\<close> reads as \<open>Object.prototype\<close> itself, so reading one from such an object
  gives a truthy value even when the object has no property of that name. Assigning to
  \<open>__proto__\<close> goes to the inherited setter: it changes the prototype of the object and
  creates no property.
\<close>

definition objectPrototypeKeys :: "string list" where
  "objectPrototypeKeys =
     [''constructor'', ''__defineGetter__'', ''__defineSetter__'', ''hasOwnProperty'',
      ''__lookupGetter__'', ''__lookupSetter__'', ''isPrototypeOf'', ''propertyIsEnumerable'',
      ''toString'', ''valueOf'', ''__proto__'', ''toLocaleString'']"

text \<open>
  The loop that fills \<open>normalizedLegacy\<close>, an object created by \<open>{}\<close>. Every stored value
  is an object, hence truthy, so \<open>!normalizedLegacy[nextKey]\<close> holds exactly when the key is
  not yet there and is not the name of an inherited property: a legacy entry whose
  normalized key is such a name is skipped.
\<close>

definition normalizeLegacyStep ::
  "(string \<Rightarrow> string) \<Rightarrow> string \<Rightarrow> string \<times> SessionEntryLike
     \<Rightarrow> SessionStoreLike \<Rightarrow> SessionStoreLike" where
  "normalizeLegacyStep normalizeAgentId agentId ke acc =
     (let nextKey = normalizeSessionKeyForAgent normalizeAgentId (fst ke) agentId in
      if nextKey = [] then acc
      else if map_of acc nextKey = None \<and> nextKey \<notin> set objectPrototypeKeys
      then AList.update nextKey (snd ke) acc
      else acc)"

definition normalizedLegacy ::
  "(string \<Rightarrow> string) \<Rightarrow> string \<Rightarrow> SessionStoreLike \<Rightarrow> SessionStoreLike" where
  "normalizedLegacy normalizeAgentId agentId legacyStore =
     fold (normalizeLegacyStep normalizeAgentId agentId) legacyStore []"

text \<open>The audit entries of the migration, by kind and the values interpolated into them.\<close>

datatype changeMsg =
    MigratedLatestDirectChat string
  | MergedSessionsStore string
  | MovedSessionFile string string
  | MovedAgentFile string string
  | MovedWhatsAppAuth string

datatype warningMsg =
    LegacyStoreUnreadable string
  | FailedMoving string string
  | LeftLegacySessions string
  | LeftLegacyAgentDir string
  | FailedRelocatingAgentDir string

text \<open>
  \<open>LegacyStateDetection\<close>, with the three nested objects flattened into prefixed fields.
\<close>

record LegacyStateDetection =
  targetAgentId :: string
  targetMainKey :: string
  stateDir :: string
  oauthDir :: string
  sessions_legacyDir :: string
  sessions_legacyStorePath :: string
  sessions_targetDir :: string
  sessions_targetStorePath :: string
  sessions_hasLegacy :: bool
  agentDir_legacyDir :: string
  agentDir_targetDir :: string
  agentDir_hasLegacy :: bool
  whatsappAuth_legacyDir :: string
  whatsappAuth_targetDir :: string
  whatsappAuth_hasLegacy :: bool
  preview :: "string list"

text \<open>
  \<open>merged\<close> as \<open>migrateLegacySessions\<close> has it after the main-key adoption, with the change
  entries pushed meanwhile; \<open>mainKey\<close> is the local variable of that name. The spread
  defines the properties of both stores on \<open>merged\<close> itself, whatever their names. The
  local \<open>mainKey\<close> is a value of \<open>buildAgentMainSessionKey\<close>, an agent key
  \<open>agent:<agentId>:<mainKey>\<close> and so never the name of an inherited property; for such a
  key \<open>!merged[mainKey]\<close> holds exactly when \<open>merged\<close> has no entry under it, which is the
  test written here.
\<close>

definition mergedSessions ::
  "(string \<Rightarrow> string) \<Rightarrow> string \<Rightarrow> string
     \<Rightarrow> SessionStoreLike \<Rightarrow> SessionStoreLike \<Rightarrow> SessionStoreLike \<times> changeMsg list" where
  "mergedSessions normalizeAgentId agentId mainKey legacyStore targetStore =
     (let merged = spread (normalizedLegacy normalizeAgentId agentId legacyStore) targetStore
      in if map_of merged mainKey = None then
           (case pickLatestLegacyDirectEntry legacyStore of
              None \<Rightarrow> (merged, [])
            | Some latest \<Rightarrow>
                if truthy (getProp ''sessionId'' latest)
                then (AList.update mainKey latest merged, [MigratedLatestDirectChat mainKey])
                else (merged, []))
         else (merged, []))"

text \<open>
  The loop that builds the store handed to \<open>saveSessionStore\<close>. The second argument lists
  the properties of \<open>normalized\<close>, an object created by \<open>{}\<close>: the assignment
  \<open>normalized[key] = normalizedEntry\<close> adds or replaces a property, except for the key
  \<open>__proto__\<close>, where it changes the prototype and leaves the properties as they are.
\<close>

fun normalizeEntries ::
  "clock \<Rightarrow> nat \<Rightarrow> SessionStoreLike \<Rightarrow> SessionStoreLike \<Rightarrow> SessionStoreLike \<times> nat" where
  "normalizeEntries clock t [] normalized = (normalized, t)"
| "normalizeEntries clock t (ke # rest) normalized =
     (case normalizeSessionEntry clock t (snd ke) of
        (None, t') \<Rightarrow> normalizeEntries clock t' rest normalized
      | (Some normalizedEntry, t') \<Rightarrow>
          if fst ke = ''__proto__'' then normalizeEntries clock t' rest normalized
          else normalizeEntries clock t' rest
                 (AList.update (fst ke) normalizedEntry normalized))"

text \<open>
  Modelled from the spec: \<open>buildAgentMainSessionKey\<close> (routing/session-key.js) is not among
  the sources. The spec writes the canonical keys as \<open>agent:<agentId>:...\<close> and the main key
  of agent \<open>default\<close> as \<open>agent:default:main\<close>. The migration takes the function as a
  parameter; this instance only serves to run it on concrete stores.
\<close>

definition buildAgentMainSessionKey_spec :: "string \<Rightarrow> string \<Rightarrow> string" where
  "buildAgentMainSessionKey_spec agentId mainKey = ''agent:'' @ agentId @ '':'' @ mainKey"

text \<open>
  \<open>migrateLegacySessions\<close> up to the call of \<open>saveSessionStore\<close>: the two stores as read
  (\<open>store\<close> and \<open>ok\<close> of \<open>readSessionStoreJson5\<close>, or the empty store and \<open>true\<close> for a file
  that does not exist) are arguments, and \<open>sm_saved\<close> is the store passed to
  \<open>saveSessionStore\<close>, if it is called. \<open>buildAgentMainSessionKey\<close> (routing/session-key.js)
  is a parameter, applied to the agent id and the main key. The moves of the other files
  of the legacy directory that follow are file-system operations and are not part of
  this function.
\<close>

record SessionsMigration =
  sm_merged :: SessionStoreLike
  sm_saved :: "SessionStoreLike option"
  sm_changes :: "changeMsg list"
  sm_warnings :: "warningMsg list"
  sm_ticks :: nat

definition migrateLegacySessions ::
  "(string \<Rightarrow> string) \<Rightarrow> (string \<Rightarrow> string \<Rightarrow> string) \<Rightarrow> clock \<Rightarrow> nat
     \<Rightarrow> LegacyStateDetection \<Rightarrow> SessionStoreLike \<times> bool \<Rightarrow> SessionStoreLike \<times> bool
     \<Rightarrow> SessionsMigration" where
  "migrateLegacySessions normalizeAgentId buildAgentMainSessionKey clock t detected
       legacyParsed targetParsed =
     (if \<not> sessions_hasLegacy detected
      then \<lparr>sm_merged = [], sm_saved = None, sm_changes = [], sm_warnings = [], sm_ticks = t\<rparr>
      else
        (let legacyStore = fst legacyParsed;
             targetStore = fst targetParsed;
             mainKey = buildAgentMainSessionKey (targetAgentId detected) (targetMainKey detected);
             m = mergedSessions normalizeAgentId (targetAgentId detected) mainKey
                   legacyStore targetStore;
             merged = fst m;
             changes1 = snd m;
             warnings = (if \<not> snd legacyParsed
                         then [LegacyStoreUnreadable (sessions_legacyStorePath detected)] else [])
         in if snd legacyParsed \<and> (legacyStore \<noteq> [] \<or> targetStore \<noteq> []) then
              (let n = normalizeEntries clock t merged [] in
               \<lparr>sm_merged = merged, sm_saved = Some (fst n),
                sm_changes = changes1 @ [MergedSessionsStore (sessions_targetStorePath detected)],
                sm_warnings = warnings, sm_ticks = snd n\<rparr>)
            else
              \<lparr>sm_merged = merged, sm_saved = None, sm_changes = changes1,
               sm_warnings = warnings, sm_ticks = t\<rparr>))"

text \<open>
  A detection result to run the migration on: agent \<open>default\<close>, main key \<open>main\<close>, legacy
  sessions present.
\<close>

definition exampleDetection :: LegacyStateDetection where
  "exampleDetection =
     \<lparr>targetAgentId = ''default'', targetMainKey = ''main'', stateDir = ''/s'', oauthDir = ''/o'',
      sessions_legacyDir = ''/s/sessions'', sessions_legacyStorePath = ''/s/sessions/sessions.json'',
      sessions_targetDir = ''/s/agents/default/sessions'',
      sessions_targetStorePath = ''/s/agents/default/sessions/sessions.json'',
      sessions_hasLegacy = True, agentDir_legacyDir = ''/s/agent'',
      agentDir_targetDir = ''/s/agents/default/agent'', agentDir_hasLegacy = False,
      whatsappAuth_legacyDir = ''/o'', whatsappAuth_targetDir = ''/o/whatsapp/default'',
      whatsappAuth_hasLegacy = False, preview = []\<rparr>"

section \<open>Automatic migration (state-migrations.ts)\<close>

text \<open>
  The module-level flag \<open>autoMigrateChecked\<close>, the file system and the log sink make up
  the state of the process. The file system is an arbitrary type: detection reads it, and
  the two migration routines that \<open>autoMigrateLegacyState\<close> runs are state transformers on
  it, given as parameters (the clock that the code hands to them is part of the routine).
\<close>

record 'fs ProcessState =
  autoMigrateChecked :: bool
  fileSystem :: 'fs
  logInfo :: "changeMsg list list"
  logWarn :: "warningMsg list list"

record ProcessEnv =
  CLAWDBOT_AGENT_DIR :: "string option"
  PI_CODING_AGENT_DIR :: "string option"

record AutoMigrateResult =
  migrated :: bool
  skipped :: bool
  changes :: "changeMsg list"
  warnings :: "warningMsg list"

text \<open>\<open>env.X?.trim()\<close> used as a condition.\<close>

definition envSet :: "string option \<Rightarrow> bool" where
  "envSet v = (case v of None \<Rightarrow> False | Some s \<Rightarrow> trim s \<noteq> [])"

type_synonym 'fs routine =
  "LegacyStateDetection \<Rightarrow> 'fs \<Rightarrow> (changeMsg list \<times> warningMsg list) \<times> 'fs"

definition autoMigrateLegacyState ::
  "(ProcessEnv \<Rightarrow> 'fs \<Rightarrow> LegacyStateDetection) \<Rightarrow> 'fs routine \<Rightarrow> 'fs routine
     \<Rightarrow> ProcessEnv \<Rightarrow> 'fs ProcessState \<Rightarrow> AutoMigrateResult \<times> 'fs ProcessState" where
  "autoMigrateLegacyState detectLegacyStateMigrations migrateSessions migrateAgentDir env st =
     (if autoMigrateChecked st
      then (\<lparr>migrated = False, skipped = True, changes = [], warnings = []\<rparr>, st)
      else
        (let st1 = st\<lparr>autoMigrateChecked := True\<rparr> in
         if envSet (CLAWDBOT_AGENT_DIR env) \<or> envSet (PI_CODING_AGENT_DIR env)
         then (\<lparr>migrated = False, skipped = True, changes = [], warnings = []\<rparr>, st1)
         else
           (let detected = detectLegacyStateMigrations env (fileSystem st1) in
            if \<not> sessions_hasLegacy detected \<and> \<not> agentDir_hasLegacy detected
            then (\<lparr>migrated = False, skipped = False, changes = [], warnings = []\<rparr>, st1)
            else
              (let s = migrateSessions detected (fileSystem st1);
                   a = migrateAgentDir detected (snd s);
                   changes' = fst (fst s) @ fst (fst a);
                   warnings' = snd (fst s) @ snd (fst a);
                   st2 = st1\<lparr>fileSystem := snd a\<rparr>;
                   st3 = (if changes' \<noteq> [] then st2\<lparr>logInfo := logInfo st2 @ [changes']\<rparr>
                          else st2);
                   st4 = (if warnings' \<noteq> [] then st3\<lparr>logWarn := logWarn st3 @ [warnings']\<rparr>
                          else st3)
               in (\<lparr>migrated = (changes' \<noteq> []), skipped = False,
                    changes = changes', warnings = warnings'\<rparr>, st4)))))"

text \<open>A sequence of calls in one process, each with its own environment argument.\<close>

fun autoMigrateCalls ::
  "(ProcessEnv \<Rightarrow> 'fs \<Rightarrow> LegacyStateDetection) \<Rightarrow> 'fs routine \<Rightarrow> 'fs routine
     \<Rightarrow> ProcessEnv list \<Rightarrow> 'fs ProcessState \<Rightarrow> AutoMigrateResult list \<times> 'fs ProcessState" where
  "autoMigrateCalls d ms ma [] st = ([], st)"
| "autoMigrateCalls d ms ma (env # envs) st =
     (let r = autoMigrateLegacyState d ms ma env st;
          rs = autoMigrateCalls d ms ma envs (snd r)
      in (fst r # fst rs, snd rs))"

text \<open>
  A counting instance: the file system is reduced to the number of routine runs,
  detection always reports legacy sessions, and each routine adds one run and reports
  nothing. It serves to run \<open>autoMigrateLegacyState\<close> on concrete call sequences.
\<close>

definition countingDetection :: "ProcessEnv \<Rightarrow> nat \<Rightarrow> LegacyStateDetection" where
  "countingDetection env runs =
     \<lparr>targetAgentId = ''default'', targetMainKey = ''main'', stateDir = ''/s'', oauthDir = ''/o'',
      sessions_legacyDir = ''/s/sessions'', sessions_legacyStorePath = ''/s/sessions/sessions.json'',
      sessions_targetDir = ''/s/agents/default/sessions'',
      sessions_targetStorePath = ''/s/agents/default/sessions/sessions.json'',
      sessions_hasLegacy = True, agentDir_legacyDir = ''/s/agent'',
      agentDir_targetDir = ''/s/agents/default/agent'', agentDir_hasLegacy = False,
      whatsappAuth_legacyDir = ''/o'', whatsappAuth_targetDir = ''/o/whatsapp/default'',
      whatsappAuth_hasLegacy = False, preview = []\<rparr>"

definition countingRoutine :: "nat routine" where
  "countingRoutine detected runs = (([], []), Suc runs)"

section \<open>Session Forker and Session Lifecycle Manager (state-migrations.ts, lines 541 to 891)\<close>

text \<open>
  \<open>MsgContext\<close>, \<open>cfg.session\<close>, \<open>SessionEntry\<close> and \<open>GroupKeyResolution\<close>, with the fields
  that \<open>initSessionState\<close> reads or writes. An optional property is an \<open>option\<close>; the
  properties of a stored entry that the function never names are kept in \<open>other\<close>.
\<close>

record MsgContext =
  Body :: "string option"
  RawBody :: "string option"
  CommandBody :: "string option"
  BodyForCommands :: "string option"
  BodyForAgent :: "string option"
  SessionKey :: "string option"
  CommandSource :: "string option"
  CommandTargetSessionKey :: "string option"
  ChatType :: "string option"
  OriginatingChannel :: "string option"
  OriginatingTo :: "string option"
  To :: "string option"
  AccountId :: "string option"
  GroupSubject :: "string option"
  GroupSpace :: "string option"
  GroupChannel :: "string option"
  ThreadLabel :: "string option"
  ParentSessionKey :: "string option"
  MessageThreadId :: "string option"

record SessionConfig =
  cfg_mainKey :: "string option"
  cfg_resetTriggers :: "string list option"
  cfg_idleMinutes :: "jsnum option"
  cfg_scope :: "string option"
  cfg_store :: "string option"

record ClawdbotConfig =
  session :: "SessionConfig option"

record DeliveryContext =
  dc_channel :: "string option"
  dc_to :: "string option"
  dc_accountId :: "string option"

record SessionEntry =
  sessionId :: string
  updatedAt :: jsnum
  systemSent :: "bool option"
  abortedLastRun :: "bool option"
  thinkingLevel :: "string option"
  verboseLevel :: "string option"
  reasoningLevel :: "string option"
  responseUsage :: "string option"
  modelOverride :: "string option"
  providerOverride :: "string option"
  sendPolicy :: "string option"
  queueMode :: "string option"
  queueDebounceMs :: "jsnum option"
  queueCap :: "jsnum option"
  queueDrop :: "string option"
  displayName :: "string option"
  chatType :: "string option"
  channel :: "string option"
  groupId :: "string option"
  subject :: "string option"
  room :: "string option"
  space :: "string option"
  deliveryContext :: "DeliveryContext option"
  lastChannel :: "string option"
  lastTo :: "string option"
  lastAccountId :: "string option"
  sessionFile :: "string option"
  compactionCount :: "jsnum option"
  memoryFlushCompactionCount :: "jsnum option"
  memoryFlushAt :: "jsnum option"
  other :: "(string \<times> jsval) list"

type_synonym SessionStore = "(string \<times> SessionEntry) list"

record GroupKeyResolution =
  gr_channel :: "string option"
  gr_id :: "string option"
  gr_chatType :: "string option"

record DeliveryFields =
  df_deliveryContext :: "DeliveryContext option"
  df_lastChannel :: "string option"
  df_lastTo :: "string option"
  df_lastAccountId :: "string option"

text \<open>A call inside the \<open>try\<close> block of \<open>forkSessionFromParent\<close> returns or throws.\<close>

datatype 'a attempt = Throws | Returns 'a

text \<open>
  The collaborators of both functions are imported from other modules; they are the fields of
  \<open>Collaborators\<close>, named as in the code. A \<open>SessionManager\<close> method takes the transcript
  file the manager was opened on; \<open>dockHasChannelChat c\<close> stands for
  \<open>getChannelDock(c)?.capabilities.chatTypes.includes("channel")\<close>, \<open>isoFileTimestamp\<close> for
  \<open>toISOString()\<close> with \<open>:\<close> and \<open>.\<close> replaced, and \<open>writeFileSync\<close> tells whether writing the
  header to a path succeeds.
\<close>

record Collaborators =
  normalizeMainKey :: "string option \<Rightarrow> string"
  resolveSessionAgentId :: "string option \<Rightarrow> ClawdbotConfig \<Rightarrow> string"
  DEFAULT_RESET_TRIGGERS :: "string list"
  DEFAULT_IDLE_MINUTES :: jsnum
  resolveStorePath :: "string option \<Rightarrow> string \<Rightarrow> string"
  loadSessionStore :: "string \<Rightarrow> SessionStore"
  resolveGroupSessionKey :: "MsgContext \<Rightarrow> GroupKeyResolution option"
  normalizeChatType :: "string option \<Rightarrow> string option"
  stripStructuralPrefixes :: "string \<Rightarrow> string"
  resolveCommandAuthorization :: "MsgContext \<Rightarrow> ClawdbotConfig \<Rightarrow> bool \<Rightarrow> bool"
  stripMentions :: "string \<Rightarrow> MsgContext \<Rightarrow> ClawdbotConfig \<Rightarrow> string \<Rightarrow> string"
  resolveSessionKey :: "string \<Rightarrow> MsgContext \<Rightarrow> string \<Rightarrow> string"
  normalizeSessionDeliveryFields :: "DeliveryContext \<Rightarrow> DeliveryFields"
  normalizeChannelId :: "string \<Rightarrow> string option"
  dockHasChannelChat :: "string \<Rightarrow> bool"
  buildGroupDisplayName ::
    "string option \<Rightarrow> string option \<Rightarrow> string option \<Rightarrow> string option \<Rightarrow> string option
       \<Rightarrow> string \<Rightarrow> string option"
  resolveSessionTranscriptPath :: "string \<Rightarrow> string \<Rightarrow> string option \<Rightarrow> string"
  resolveSessionFilePath :: "string \<Rightarrow> SessionEntry \<Rightarrow> string option"
  existsSync :: "string \<Rightarrow> bool"
  SessionManager_open :: "string \<Rightarrow> unit attempt"
  getLeafId :: "string \<Rightarrow> string option attempt"
  createBranchedSession :: "string \<Rightarrow> string \<Rightarrow> string option attempt"
  getSessionFile :: "string \<Rightarrow> string option attempt"
  getSessionId :: "string \<Rightarrow> string option attempt"
  getSessionDir :: "string \<Rightarrow> string attempt"
  getCwd :: "string \<Rightarrow> string attempt"
  isoFileTimestamp :: "rat \<Rightarrow> string"
  pathJoin :: "string \<Rightarrow> string \<Rightarrow> string"
  writeFileSync :: "string \<Rightarrow> bool"

text \<open>
  What the clock and the random generator return to one call of \<open>initSessionState\<close>, for
  each place that may read them: \<open>Date.now()\<close> in the freshness test and in \<open>updatedAt\<close>,
  \<open>crypto.randomUUID()\<close> for a new session, and \<open>crypto.randomUUID()\<close> and \<open>new Date()\<close> in
  \<open>forkSessionFromParent\<close>.
\<close>

record Readings =
  nowFresh :: rat
  nowWrite :: rat
  newId :: string
  forkId :: string
  forkTime :: rat

text \<open>
  Small idioms of the source: a string used as a condition, \<open>a || b\<close> and \<open>a ?? b\<close> on
  optional values, and \<open>obj?.field\<close>.
\<close>

definition truthyStr :: "string option \<Rightarrow> bool" where
  "truthyStr v = (case v of None \<Rightarrow> False | Some s \<Rightarrow> s \<noteq> [])"

definition orFalsy :: "string option \<Rightarrow> string option \<Rightarrow> string option" where
  "orFalsy a b = (if truthyStr a then a else b)"

definition nullish :: "'a option \<Rightarrow> 'a option \<Rightarrow> 'a option" where
  "nullish a b = (case a of None \<Rightarrow> b | Some x \<Rightarrow> Some x)"

definition optField :: "('r \<Rightarrow> 'a option) \<Rightarrow> 'r option \<Rightarrow> 'a option" where
  "optField f obj = (case obj of None \<Rightarrow> None | Some r \<Rightarrow> f r)"

subsection \<open>forkSessionFromParent\<close>

text \<open>
  The body of the \<open>try\<close> block. The branch under \<open>if (leafId)\<close> returns only when both the
  session file and the session id are truthy; otherwise control falls through to the
  synthesized session. The result is the pair \<open>(sessionId, sessionFile)\<close>.
\<close>

definition forkBranch :: "Collaborators \<Rightarrow> string \<Rightarrow> (string \<times> string) option attempt" where
  "forkBranch c parentSessionFile =
     (case SessionManager_open c parentSessionFile of
        Throws \<Rightarrow> Throws
      | Returns _ \<Rightarrow>
         (case getLeafId c parentSessionFile of
            Throws \<Rightarrow> Throws
          | Returns None \<Rightarrow> Returns None
          | Returns (Some leafId) \<Rightarrow>
              if leafId = [] then Returns None
              else
                (case createBranchedSession c parentSessionFile leafId of
                   Throws \<Rightarrow> Throws
                 | Returns branched \<Rightarrow>
                    (case (case branched of
                             Some f \<Rightarrow> Returns (Some f)
                           | None \<Rightarrow> getSessionFile c parentSessionFile) of
                       Throws \<Rightarrow> Throws
                     | Returns sessionFile' \<Rightarrow>
                        (case getSessionId c parentSessionFile of
                           Throws \<Rightarrow> Throws
                         | Returns sessionId' \<Rightarrow>
                            (case (sessionFile', sessionId') of
                               (Some sf, Some sid) \<Rightarrow>
                                 if sf \<noteq> [] \<and> sid \<noteq> [] then Returns (Some (sid, sf))
                                 else Returns None
                             | _ \<Rightarrow> Returns None))))))"

definition forkAttempt :: "Collaborators \<Rightarrow> Readings \<Rightarrow> string \<Rightarrow> (string \<times> string) attempt" where
  "forkAttempt c w parentSessionFile =
     (case forkBranch c parentSessionFile of
        Throws \<Rightarrow> Throws
      | Returns (Some r) \<Rightarrow> Returns r
      | Returns None \<Rightarrow>
         (let sid = forkId w;
              fileTimestamp = isoFileTimestamp c (forkTime w)
          in case getSessionDir c parentSessionFile of
               Throws \<Rightarrow> Throws
             | Returns dir \<Rightarrow>
                (let sessionFile' = pathJoin c dir (fileTimestamp @ ''_'' @ sid @ ''.jsonl'')
                 in case getCwd c parentSessionFile of
                      Throws \<Rightarrow> Throws
                    | Returns cwd \<Rightarrow>
                        if writeFileSync c sessionFile' then Returns (sid, sessionFile')
                        else Throws)))"

definition forkSessionFromParent ::
  "Collaborators \<Rightarrow> Readings \<Rightarrow> SessionEntry \<Rightarrow> (string \<times> string) option" where
  "forkSessionFromParent c w parentEntry =
     (case resolveSessionFilePath c (sessionId parentEntry) parentEntry of
        None \<Rightarrow> None
      | Some parentSessionFile \<Rightarrow>
          if parentSessionFile = [] \<or> \<not> existsSync c parentSessionFile then None
          else (case forkAttempt c w parentSessionFile of
                  Throws \<Rightarrow> None
                | Returns r \<Rightarrow> Some r))"

subsection \<open>initSessionState\<close>

text \<open>
  The loop over \<open>resetTriggers\<close>. \<open>None\<close> when no reset is triggered, else the value given to
  \<open>bodyStripped\<close>.
\<close>

fun matchResetTrigger :: "bool \<Rightarrow> string \<Rightarrow> string \<Rightarrow> string list \<Rightarrow> string option" where
  "matchResetTrigger resetAuthorized trimmedBody strippedForReset [] = None"
| "matchResetTrigger resetAuthorized trimmedBody strippedForReset (trigger # rest) =
     (if trigger = [] then matchResetTrigger resetAuthorized trimmedBody strippedForReset rest
      else if \<not> resetAuthorized then None
      else if trimmedBody = trigger \<or> strippedForReset = trigger then Some []
      else
        (let triggerPrefix = trigger @ '' '' in
         if startsWith triggerPrefix trimmedBody \<or> startsWith triggerPrefix strippedForReset
         then Some (trimStart (drop (length trigger) strippedForReset))
         else matchResetTrigger resetAuthorized trimmedBody strippedForReset rest))"

text \<open>\<open>{ ...undefined }\<close>: an entry with no property set.\<close>

definition blankEntry :: SessionEntry where
  "blankEntry =
     \<lparr>sessionId = [], updatedAt = NaN, systemSent = None, abortedLastRun = None,
      thinkingLevel = None, verboseLevel = None, reasoningLevel = None, responseUsage = None,
      modelOverride = None, providerOverride = None, sendPolicy = None, queueMode = None,
      queueDebounceMs = None, queueCap = None, queueDrop = None, displayName = None,
      chatType = None, channel = None, groupId = None, subject = None, room = None,
      space = None, deliveryContext = None, lastChannel = None, lastTo = None,
      lastAccountId = None, sessionFile = None, compactionCount = None,
      memoryFlushCompactionCount = None, memoryFlushAt = None, other = []\<rparr>"

text \<open>
  The object literal assigned to \<open>sessionEntry\<close> (with the delivery fields computed just
  before it). \<open>reuse\<close> is \<open>!isNewSession && freshEntry\<close>; the \<open>persisted...\<close> variables are set
  from the entry in that case only.
\<close>

definition entryLiteral ::
  "Collaborators \<Rightarrow> Readings \<Rightarrow> MsgContext \<Rightarrow> bool \<Rightarrow> SessionEntry option
     \<Rightarrow> string \<Rightarrow> bool \<Rightarrow> bool \<Rightarrow> SessionEntry" where
  "entryLiteral c w ctx reuse entry sessionId' systemSent' abortedLastRun' =
     (let persistedThinking = (if reuse then optField thinkingLevel entry else None);
          persistedVerbose = (if reuse then optField verboseLevel entry else None);
          persistedReasoning = (if reuse then optField reasoningLevel entry else None);
          persistedModelOverride = (if reuse then optField modelOverride entry else None);
          persistedProviderOverride = (if reuse then optField providerOverride entry else None);
          baseEntry = (if reuse then entry else None);
          lastChannelRaw = orFalsy (OriginatingChannel ctx) (optField lastChannel baseEntry);
          lastToRaw = orFalsy (orFalsy (OriginatingTo ctx) (To ctx)) (optField lastTo baseEntry);
          lastAccountIdRaw = orFalsy (AccountId ctx) (optField lastAccountId baseEntry);
          deliveryFields = normalizeSessionDeliveryFields c
            \<lparr>dc_channel = lastChannelRaw, dc_to = lastToRaw, dc_accountId = lastAccountIdRaw\<rparr>;
          lastChannel' = nullish (df_lastChannel deliveryFields) lastChannelRaw;
          lastTo' = nullish (df_lastTo deliveryFields) lastToRaw;
          lastAccountId' = nullish (df_lastAccountId deliveryFields) lastAccountIdRaw
      in (case baseEntry of None \<Rightarrow> blankEntry | Some b \<Rightarrow> b)
           \<lparr>sessionId := sessionId',
            updatedAt := Num (nowWrite w),
            systemSent := Some systemSent',
            abortedLastRun := Some abortedLastRun',
            thinkingLevel := nullish persistedThinking (optField thinkingLevel baseEntry),
            verboseLevel := nullish persistedVerbose (optField verboseLevel baseEntry),
            reasoningLevel := nullish persistedReasoning (optField reasoningLevel baseEntry),
            responseUsage := optField responseUsage baseEntry,
            modelOverride := nullish persistedModelOverride (optField modelOverride baseEntry),
            providerOverride :=
              nullish persistedProviderOverride (optField providerOverride baseEntry),
            sendPolicy := optField sendPolicy baseEntry,
            queueMode := optField queueMode baseEntry,
            queueDebounceMs := optField queueDebounceMs baseEntry,
            queueCap := optField queueCap baseEntry,
            queueDrop := optField queueDrop baseEntry,
            displayName := optField displayName baseEntry,
            chatType := optField chatType baseEntry,
            channel := optField channel baseEntry,
            groupId := optField groupId baseEntry,
            subject := optField subject baseEntry,
            room := optField room baseEntry,
            space := optField space baseEntry,
            deliveryContext := df_deliveryContext deliveryFields,
            lastChannel := lastChannel',
            lastTo := lastTo',
            lastAccountId := lastAccountId'\<rparr>)"

text \<open>
  The group metadata refresh and the thread label (the \<open>if (groupResolution?.channel)\<close>
  statement and the one on \<open>threadLabel\<close>).
\<close>

definition groupMetadata ::
  "Collaborators \<Rightarrow> MsgContext \<Rightarrow> GroupKeyResolution option \<Rightarrow> string
     \<Rightarrow> SessionEntry \<Rightarrow> SessionEntry" where
  "groupMetadata c ctx groupResolution sessionKey' e0 =
     (let noGroup = (if \<not> truthyStr (chatType e0) then e0\<lparr>chatType := Some ''direct''\<rparr> else e0);
          e1 =
        (case groupResolution of
           None \<Rightarrow> noGroup
         | Some gr \<Rightarrow>
            (case gr_channel gr of
               None \<Rightarrow> noGroup
             | Some channel' \<Rightarrow>
                if channel' = [] then noGroup
                else
                  (let subject' = map_option trim (GroupSubject ctx);
                       space' = map_option trim (GroupSpace ctx);
                       explicitChannel = map_option trim (GroupChannel ctx);
                       normalizedChannel = normalizeChannelId c channel';
                       isChannelProvider =
                         (case normalizedChannel of
                            None \<Rightarrow> False
                          | Some n \<Rightarrow> n \<noteq> [] \<and> dockHasChannelChat c n);
                       nextRoom = nullish explicitChannel
                         (if (gr_chatType gr = Some ''channel'' \<or> isChannelProvider)
                             \<and> truthyStr subject'
                             \<and> (case subject' of None \<Rightarrow> False | Some s \<Rightarrow> startsWith ''#'' s)
                          then subject' else None);
                       nextSubject = (if truthyStr nextRoom then None else subject');
                       e2 = e0\<lparr>chatType := nullish (gr_chatType gr) (Some ''group''),
                               channel := Some channel',
                               groupId := gr_id gr\<rparr>;
                       e3 = (if truthyStr nextSubject then e2\<lparr>subject := nextSubject\<rparr> else e2);
                       e4 = (if truthyStr nextRoom then e3\<lparr>room := nextRoom\<rparr> else e3);
                       e5 = (if truthyStr space' then e4\<lparr>space := space'\<rparr> else e4)
                   in e5\<lparr>displayName :=
                           buildGroupDisplayName c (channel e5) (subject e5) (room e5) (space e5)
                             (gr_id gr) sessionKey'\<rparr>)));
          threadLabel = map_option trim (ThreadLabel ctx)
      in if truthyStr threadLabel then e1\<lparr>displayName := threadLabel\<rparr> else e1)"

record SessionInitResult =
  res_sessionEntry :: SessionEntry
  res_previousSessionEntry :: "SessionEntry option"
  res_sessionStore :: SessionStore
  res_sessionKey :: string
  res_sessionId :: string
  res_isNewSession :: bool
  res_systemSent :: bool
  res_abortedLastRun :: bool
  res_storePath :: string
  res_sessionScope :: string
  res_groupResolution :: "GroupKeyResolution option"
  res_isGroup :: bool
  res_bodyStripped :: "string option"
  res_triggerBodyNormalized :: string

text \<open>
  The values that \<open>initSessionState\<close> computes before it decides, each named after the local
  variable it is bound to.
\<close>

definition sessionCtxForState :: "MsgContext \<Rightarrow> MsgContext" where
  "sessionCtxForState ctx =
     (let targetSessionKey =
            (if CommandSource ctx = Some ''native''
             then map_option trim (CommandTargetSessionKey ctx) else None)
      in if truthyStr targetSessionKey \<and> targetSessionKey \<noteq> SessionKey ctx
         then ctx\<lparr>SessionKey := targetSessionKey\<rparr> else ctx)"

definition agentId :: "Collaborators \<Rightarrow> MsgContext \<Rightarrow> ClawdbotConfig \<Rightarrow> string" where
  "agentId c ctx cfg = resolveSessionAgentId c (SessionKey (sessionCtxForState ctx)) cfg"

definition resetTriggers :: "Collaborators \<Rightarrow> ClawdbotConfig \<Rightarrow> string list" where
  "resetTriggers c cfg =
     (case optField cfg_resetTriggers (session cfg) of
        None \<Rightarrow> DEFAULT_RESET_TRIGGERS c
      | Some ts \<Rightarrow> if ts \<noteq> [] then ts else DEFAULT_RESET_TRIGGERS c)"

definition idleMinutes :: "Collaborators \<Rightarrow> ClawdbotConfig \<Rightarrow> jsnum" where
  "idleMinutes c cfg =
     Math_max (case optField cfg_idleMinutes (session cfg) of
                 None \<Rightarrow> DEFAULT_IDLE_MINUTES c
               | Some m \<Rightarrow> m) (Num 1)"

definition storePath :: "Collaborators \<Rightarrow> MsgContext \<Rightarrow> ClawdbotConfig \<Rightarrow> string" where
  "storePath c ctx cfg = resolveStorePath c (optField cfg_store (session cfg)) (agentId c ctx cfg)"

definition isGroup :: "Collaborators \<Rightarrow> MsgContext \<Rightarrow> bool" where
  "isGroup c ctx =
     (let groupResolution = resolveGroupSessionKey c (sessionCtxForState ctx);
          normalizedChatType = normalizeChatType c (ChatType ctx)
      in if normalizedChatType \<noteq> None \<and> normalizedChatType \<noteq> Some ''direct''
         then True else groupResolution \<noteq> None)"

definition commandSource :: "MsgContext \<Rightarrow> string" where
  "commandSource ctx =
     (case nullish (nullish (nullish (BodyForCommands ctx) (CommandBody ctx)) (RawBody ctx))
             (Body ctx) of
        None \<Rightarrow> [] | Some b \<Rightarrow> b)"

definition triggerBodyNormalized :: "Collaborators \<Rightarrow> MsgContext \<Rightarrow> string" where
  "triggerBodyNormalized c ctx = toLowerCase (trim (stripStructuralPrefixes c (commandSource ctx)))"

definition trimmedBody :: "MsgContext \<Rightarrow> string" where
  "trimmedBody ctx = trim (commandSource ctx)"

definition strippedForReset :: "Collaborators \<Rightarrow> MsgContext \<Rightarrow> ClawdbotConfig \<Rightarrow> string" where
  "strippedForReset c ctx cfg =
     (if isGroup c ctx
      then stripMentions c (triggerBodyNormalized c ctx) ctx cfg (agentId c ctx cfg)
      else triggerBodyNormalized c ctx)"

definition sessionKey :: "Collaborators \<Rightarrow> MsgContext \<Rightarrow> ClawdbotConfig \<Rightarrow> string" where
  "sessionKey c ctx cfg =
     resolveSessionKey c
       (case optField cfg_scope (session cfg) of None \<Rightarrow> ''per-sender'' | Some s \<Rightarrow> s)
       (sessionCtxForState ctx)
       (normalizeMainKey c (optField cfg_mainKey (session cfg)))"

text \<open>
  \<open>sessionStore\<close> as loaded, and \<open>entry\<close>, the stored entry at the resolved key. The keys
  that the store is read at are session keys, which carry the agent prefix and never name
  a property that the store object inherits: reading the store at a key gives the entry
  stored under it, or \<open>undefined\<close>.
\<close>

definition sessionStore :: "Collaborators \<Rightarrow> MsgContext \<Rightarrow> ClawdbotConfig \<Rightarrow> SessionStore" where
  "sessionStore c ctx cfg = loadSessionStore c (storePath c ctx cfg)"

definition entry :: "Collaborators \<Rightarrow> MsgContext \<Rightarrow> ClawdbotConfig \<Rightarrow> SessionEntry option" where
  "entry c ctx cfg = map_of (sessionStore c ctx cfg) (sessionKey c ctx cfg)"

text \<open>
  \<open>bodyStripped\<close> after the loop over the reset triggers (\<open>resetTriggered\<close> holds exactly when
  it is set), and \<open>freshEntry\<close>.
\<close>

definition bodyStripped ::
  "Collaborators \<Rightarrow> MsgContext \<Rightarrow> ClawdbotConfig \<Rightarrow> bool \<Rightarrow> string option" where
  "bodyStripped c ctx cfg commandAuthorized =
     matchResetTrigger (resolveCommandAuthorization c ctx cfg commandAuthorized)
       (trimmedBody ctx) (strippedForReset c ctx cfg) (resetTriggers c cfg)"

definition freshEntry :: "Collaborators \<Rightarrow> Readings \<Rightarrow> MsgContext \<Rightarrow> ClawdbotConfig \<Rightarrow> bool" where
  "freshEntry c w ctx cfg =
     (let idleMs = js_mul (idleMinutes c cfg) (Num 60000) in
      case entry c ctx cfg of
        None \<Rightarrow> False
      | Some e \<Rightarrow> js_le (js_sub (Num (nowFresh w)) (updatedAt e)) idleMs)"

text \<open>
  \<open>initSessionState\<close>. The result has every field of \<open>SessionInitResult\<close> but \<open>sessionCtx\<close>,
  the template context built from \<open>ctx\<close>, \<open>sessionId\<close> and \<open>isNewSession\<close>. The store loaded
  from \<open>storePath\<close> is the in-memory snapshot; the same assignment is handed to
  \<open>updateSessionStore\<close>, which is a collaborator and is not modelled. In the last
  assignment the properties named by \<open>sessionEntry\<close> win, and the properties that only the
  stored entry has are kept.
\<close>

definition initSessionState ::
  "Collaborators \<Rightarrow> Readings \<Rightarrow> MsgContext \<Rightarrow> ClawdbotConfig \<Rightarrow> bool \<Rightarrow> SessionInitResult" where
  "initSessionState c w ctx cfg commandAuthorized =
     (let resetTriggered = (bodyStripped c ctx cfg commandAuthorized \<noteq> None);
          sessionKey' = sessionKey c ctx cfg;
          entry' = entry c ctx cfg;
          previousSessionEntry = (if resetTriggered then entry' else None);
          reuse = (\<not> resetTriggered \<and> freshEntry c w ctx cfg);
          sessionId0 = (case entry' of
                          None \<Rightarrow> newId w
                        | Some e \<Rightarrow> if reuse then sessionId e else newId w);
          isNewSession = (\<not> reuse);
          systemSent' = (case entry' of
                           None \<Rightarrow> False
                         | Some e \<Rightarrow>
                             if reuse then (case systemSent e of None \<Rightarrow> False | Some b \<Rightarrow> b)
                             else False);
          abortedLastRun' = (case entry' of
                               None \<Rightarrow> False
                             | Some e \<Rightarrow>
                                 if reuse
                                 then (case abortedLastRun e of None \<Rightarrow> False | Some b \<Rightarrow> b)
                                 else False);
          e1 = groupMetadata c ctx (resolveGroupSessionKey c (sessionCtxForState ctx)) sessionKey'
                 (entryLiteral c w ctx reuse entry' sessionId0 systemSent' abortedLastRun');
          forked =
            (case map_option trim (ParentSessionKey ctx) of
               None \<Rightarrow> None
             | Some parentSessionKey \<Rightarrow>
                 if isNewSession \<and> parentSessionKey \<noteq> [] \<and> parentSessionKey \<noteq> sessionKey'
                 then (case map_of (sessionStore c ctx cfg) parentSessionKey of
                         None \<Rightarrow> None
                       | Some parentEntry \<Rightarrow> forkSessionFromParent c w parentEntry)
                 else None);
          sessionId1 = (case forked of None \<Rightarrow> sessionId0 | Some f \<Rightarrow> fst f);
          e2 = (case forked of
                  None \<Rightarrow> e1
                | Some f \<Rightarrow> e1\<lparr>sessionId := fst f, sessionFile := Some (snd f)\<rparr>);
          e3 = (if \<not> truthyStr (sessionFile e2)
                then e2\<lparr>sessionFile :=
                        Some (resolveSessionTranscriptPath c (sessionId e2) (agentId c ctx cfg)
                                (MessageThreadId ctx))\<rparr>
                else e2);
          sessionEntry =
            (if isNewSession
             then e3\<lparr>compactionCount := Some (Num 0), memoryFlushCompactionCount := None,
                     memoryFlushAt := None\<rparr>
             else e3);
          stored = sessionEntry\<lparr>other := spread (case entry' of None \<Rightarrow> [] | Some e \<Rightarrow> other e)
                                                (other sessionEntry)\<rparr>
      in \<lparr>res_sessionEntry = sessionEntry,
          res_previousSessionEntry = previousSessionEntry,
          res_sessionStore = AList.update sessionKey' stored (sessionStore c ctx cfg),
          res_sessionKey = sessionKey',
          res_sessionId = sessionId1,
          res_isNewSession = isNewSession,
          res_systemSent = systemSent',
          res_abortedLastRun = abortedLastRun',
          res_storePath = storePath c ctx cfg,
          res_sessionScope =
            (case optField cfg_scope (session cfg) of None \<Rightarrow> ''per-sender'' | Some s \<Rightarrow> s),
          res_groupResolution = resolveGroupSessionKey c (sessionCtxForState ctx),
          res_isGroup = isGroup c ctx,
          res_bodyStripped = bodyStripped c ctx cfg commandAuthorized,
          res_triggerBodyNormalized = triggerBodyNormalized c ctx\<rparr>)"

text \<open>
  Concrete collaborators, store, context, configuration and readings, to run
  \<open>initSessionState\<close> on: one agent \<open>default\<close>, the session key taken from the context, no
  group, a sender authorized exactly when \<open>commandAuthorized\<close> is set, a store with a main
  entry last updated at time 1000000 and a parent entry whose transcript file does not
  exist, and a \<open>SessionManager\<close> that cannot open any file.
\<close>

definition exampleStore :: SessionStore where
  "exampleStore =
     [(''agent:default:main'',
        blankEntry\<lparr>sessionId := ''stored-id'', updatedAt := Num 1000000\<rparr>),
      (''agent:default:parent'',
        blankEntry\<lparr>sessionId := ''parent-id'', updatedAt := Num 1000000,
                   sessionFile := Some ''/s/parent.jsonl''\<rparr>)]"

definition exampleCollaborators :: Collaborators where
  "exampleCollaborators =
     \<lparr>normalizeMainKey = (\<lambda>m. case m of None \<Rightarrow> ''main'' | Some k \<Rightarrow> k),
      resolveSessionAgentId = (\<lambda>k cfg. ''default''),
      DEFAULT_RESET_TRIGGERS = [''/new'', ''/reset''],
      DEFAULT_IDLE_MINUTES = Num 60,
      resolveStorePath = (\<lambda>p a. ''/s/agents/'' @ a @ ''/sessions/sessions.json''),
      loadSessionStore = (\<lambda>p. exampleStore),
      resolveGroupSessionKey = (\<lambda>ctx. None),
      normalizeChatType = (\<lambda>t. t),
      stripStructuralPrefixes = (\<lambda>b. b),
      resolveCommandAuthorization = (\<lambda>ctx cfg commandAuthorized. commandAuthorized),
      stripMentions = (\<lambda>b ctx cfg a. b),
      resolveSessionKey =
        (\<lambda>scope' ctx m. case SessionKey ctx of None \<Rightarrow> ''agent:default:'' @ m | Some k \<Rightarrow> k),
      normalizeSessionDeliveryFields =
        (\<lambda>d. \<lparr>df_deliveryContext = Some d, df_lastChannel = dc_channel d,
               df_lastTo = dc_to d, df_lastAccountId = dc_accountId d\<rparr>),
      normalizeChannelId = Some,
      dockHasChannelChat = (\<lambda>n. False),
      buildGroupDisplayName = (\<lambda>provider subject' room' space' id' key. subject'),
      resolveSessionTranscriptPath =
        (\<lambda>sid a thread. ''/s/agents/'' @ a @ ''/sessions/'' @ sid @ ''.jsonl''),
      resolveSessionFilePath = (\<lambda>sid e. sessionFile e),
      existsSync = (\<lambda>f. False),
      SessionManager_open = (\<lambda>f. Throws),
      getLeafId = (\<lambda>f. Throws),
      createBranchedSession = (\<lambda>f leaf. Throws),
      getSessionFile = (\<lambda>f. Throws),
      getSessionId = (\<lambda>f. Throws),
      getSessionDir = (\<lambda>f. Throws),
      getCwd = (\<lambda>f. Throws),
      isoFileTimestamp = (\<lambda>t. ''2026-01-01T00-00-00-000Z''),
      pathJoin = (\<lambda>d f. d @ ''/'' @ f),
      writeFileSync = (\<lambda>f. False)\<rparr>"

definition exampleCtx :: MsgContext where
  "exampleCtx =
     \<lparr>Body = Some ''hello'', RawBody = None, CommandBody = None, BodyForCommands = None,
      BodyForAgent = None, SessionKey = Some ''agent:default:main'', CommandSource = None,
      CommandTargetSessionKey = None, ChatType = Some ''direct'', OriginatingChannel = None,
      OriginatingTo = None, To = None, AccountId = None, GroupSubject = None,
      GroupSpace = None, GroupChannel = None, ThreadLabel = None, ParentSessionKey = None,
      MessageThreadId = None\<rparr>"

definition exampleSessionConfig :: SessionConfig where
  "exampleSessionConfig =
     \<lparr>cfg_mainKey = None, cfg_resetTriggers = None, cfg_idleMinutes = None, cfg_scope = None,
      cfg_store = None\<rparr>"

definition exampleReadings :: Readings where
  "exampleReadings =
     \<lparr>nowFresh = 1001000, nowWrite = 1001001, newId = ''new-id'', forkId = ''fork-id'',
      forkTime = 1001002\<rparr>"





section \<open>Rounding to doubles\<close>

text \<open>
  The product of the double nearest to 1.15 and 60000 is not a double; the nearest one
  is 69000.
\<close>

lemma js_mul_rounds:
  "js_mul (Num (2589569785738035 / 2251799813685248)) (Num 60000) = Num 69000
   \<and> (2589569785738035 / 2251799813685248) * (60000 :: rat) \<noteq> 69000"
  by code_simp

lemma roundHalfEven_ge: "of_int n \<le> z \<Longrightarrow> n \<le> roundHalfEven z"
proof -
  assume "of_int n \<le> z"
  then have "n \<le> \<lfloor>z\<rfloor>" by (simp add: le_floor_iff)
  then show ?thesis by (auto simp: roundHalfEven_def Let_def)
qed

lemma binaryExponent_bounds:
  assumes "0 < x"
  shows "2 powi binaryExponent x \<le> x \<and> x < 2 powi (binaryExponent x + 1)"
proof -
  obtain p q where pq: "quotient_of x = (p, q)" by (cases "quotient_of x") auto
  then have q: "0 < q" using quotient_of_denom_pos by blast
  have x: "x = of_int p / of_int q" using pq by (rule quotient_of_div)
  have p: "0 < p" using assms q x by (simp add: zero_less_divide_iff)
  define bp where "bp = bitlen p"
  define bq where "bq = bitlen q"
  have bp: "2 ^ nat (bp - 1) \<le> p" "p < 2 ^ nat bp" using bitlen_bounds[OF p] by (simp_all add: bp_def)
  have bq: "2 ^ nat (bq - 1) \<le> q" "q < 2 ^ nat bq" using bitlen_bounds[OF q] by (simp_all add: bq_def)
  have bp1: "1 \<le> bp" using p bp(2) by (cases "bp \<le> 0") auto
  have bq1: "1 \<le> bq" using q bq(2) by (cases "bq \<le> 0") auto
  have P1: "(2::rat) powi (bp - 1) \<le> of_int p"
  proof -
    have "(of_int (2 ^ nat (bp - 1)) :: rat) \<le> of_int p" using bp(1) by (simp only: of_int_le_iff)
    moreover have "(2::rat) powi (bp - 1) = 2 ^ nat (bp - 1)" using bp1 by (simp add: power_int_def)
    ultimately show ?thesis by simp
  qed
  have P2: "of_int p < (2::rat) powi bp"
  proof -
    have "(of_int p :: rat) < of_int (2 ^ nat bp)" using bp(2) by (simp only: of_int_less_iff)
    moreover have "(2::rat) powi bp = 2 ^ nat bp" using bp1 by (simp add: power_int_def)
    ultimately show ?thesis by simp
  qed
  have Q1: "(2::rat) powi (bq - 1) \<le> of_int q"
  proof -
    have "(of_int (2 ^ nat (bq - 1)) :: rat) \<le> of_int q" using bq(1) by (simp only: of_int_le_iff)
    moreover have "(2::rat) powi (bq - 1) = 2 ^ nat (bq - 1)" using bq1 by (simp add: power_int_def)
    ultimately show ?thesis by simp
  qed
  have Q2: "of_int q < (2::rat) powi bq"
  proof -
    have "(of_int q :: rat) < of_int (2 ^ nat bq)" using bq(2) by (simp only: of_int_less_iff)
    moreover have "(2::rat) powi bq = 2 ^ nat bq" using bq1 by (simp add: power_int_def)
    ultimately show ?thesis by simp
  qed
  have qpos: "(0::rat) < of_int q" using q by simp
  have pos: "\<And>n. (0::rat) < 2 powi n" by simp
  have up: "x < 2 powi (bp - bq + 1)"
  proof -
    have "x * of_int q = of_int p" using x qpos by simp
    also have "\<dots> < 2 powi bp" by (rule P2)
    also have "\<dots> = 2 powi (bp - bq + 1) * 2 powi (bq - 1)"
      by (simp add: power_int_add[symmetric])
    also have "\<dots> \<le> 2 powi (bp - bq + 1) * of_int q"
      using Q1 pos by (simp add: mult_left_mono)
    finally show ?thesis using qpos by simp
  qed
  have lo: "2 powi (bp - bq - 1) < x"
  proof -
    have "(2::rat) powi (bp - bq - 1) * of_int q < 2 powi (bp - bq - 1) * 2 powi bq"
      using Q2 pos by (simp add: mult_strict_left_mono)
    also have "\<dots> = 2 powi (bp - 1)" by (simp add: power_int_add[symmetric])
    also have "\<dots> \<le> of_int p" by (rule P1)
    also have "\<dots> = x * of_int q" using x qpos by simp
    finally show ?thesis using qpos by simp
  qed
  show ?thesis
    using up lo pq by (auto simp: binaryExponent_def Let_def bp_def bq_def)
qed

text \<open>The overflow test of \<open>toDouble\<close> is the comparison with \<open>2 ^ 1024\<close>.\<close>

lemma binaryExponent_overflow:
  assumes "0 < r"
  shows "(1024 \<le> binaryExponent r) = (2 powi 1024 \<le> r)"
proof
  assume "1024 \<le> binaryExponent r"
  then have "(2::rat) powi 1024 \<le> 2 powi binaryExponent r"
    by (intro power_int_increasing) simp_all
  then show "2 powi 1024 \<le> r" using binaryExponent_bounds[OF assms] by simp
next
  assume a: "2 powi 1024 \<le> r"
  show "1024 \<le> binaryExponent r"
  proof (rule ccontr)
    assume "\<not> 1024 \<le> binaryExponent r"
    then have "binaryExponent r + 1 \<le> 1024" by simp
    then have "(2::rat) powi (binaryExponent r + 1) \<le> 2 powi 1024"
      by (intro power_int_increasing) simp_all
    then show False using binaryExponent_bounds[OF assms] a by simp
  qed
qed

lemma toDouble_ge_60000:
  assumes "60000 \<le> y"
  shows "toDouble y = PosInf \<or> (\<exists>r. toDouble y = Num r \<and> 60000 \<le> r)"
proof -
  have y0: "0 < y" using assms by simp
  define e where "e = binaryExponent y"
  have eb: "2 powi e \<le> y" "y < 2 powi (e + 1)"
    using binaryExponent_bounds[OF y0] by (simp_all add: e_def)
  have e15: "15 \<le> e"
  proof (rule ccontr)
    assume "\<not> 15 \<le> e"
    then have "e + 1 \<le> 15" by simp
    then have "(2::rat) powi (e + 1) \<le> 2 powi 15" by (intro power_int_increasing) simp_all
    also have "\<dots> = 32768" by simp
    finally show False using eb(2) assms by simp
  qed
  define q where "q = max (e - 52) (- 1074)"
  have q: "q = e - 52" using e15 by (simp add: q_def)
  define m where "m = roundHalfEven (y / 2 powi q)"
  define r where "r = (of_int m :: rat) * 2 powi q"
  have pos: "(0::rat) < 2 powi q" by simp
  have r60: "60000 \<le> r"
  proof (cases "e = 15")
    case True
    then have q37: "q = - 37" using q by simp
    have p37: "(2::rat) powi q = 1 / 137438953472" unfolding q37 by (simp add: power_int_minus)
    have "of_int (60000 * 137438953472) \<le> y / 2 powi q" using assms unfolding p37 by simp
    then have "60000 * 137438953472 \<le> m" unfolding m_def by (rule roundHalfEven_ge)
    then have "(of_int (60000 * 137438953472) :: rat) \<le> of_int m" by (simp only: of_int_le_iff)
    then show ?thesis unfolding r_def p37 by simp
  next
    case False
    then have e16: "16 \<le> e" using e15 by simp
    have "(2::rat) powi 52 = 2 powi e / 2 powi q" unfolding q by (simp add: power_int_diff)
    also have "\<dots> \<le> y / 2 powi q" using eb(1) pos by (simp add: divide_right_mono)
    finally have "of_int (2 ^ 52) \<le> y / 2 powi q" by simp
    then have "2 ^ 52 \<le> m" unfolding m_def by (rule roundHalfEven_ge)
    then have "(of_int (2 ^ 52) :: rat) \<le> of_int m" by (simp only: of_int_le_iff)
    then have "(2::rat) powi 52 * 2 powi q \<le> r" unfolding r_def using pos by (simp add: mult_right_mono)
    moreover have "(2::rat) powi e = 2 powi 52 * 2 powi q"
      unfolding q using power_int_add[of "2::rat" 52 "e - 52"] by simp
    ultimately have "(2::rat) powi e \<le> r" by simp
    moreover have "(2::rat) powi 16 \<le> 2 powi e" using e16 by (intro power_int_increasing) simp_all
    ultimately show ?thesis by simp
  qed
  have "toDouble y = (if 1024 \<le> binaryExponent r then PosInf else Num r)"
    using y0 by (simp add: toDouble_def Let_def r_def m_def q_def e_def)
  then show ?thesis using r60 by auto
qed


section \<open>Properties of the key normalizer\<close>

lemma trimEnd_nonws: "s \<noteq> [] \<Longrightarrow> \<not> isWhiteSpace (last s) \<Longrightarrow> trimEnd s = s"
  unfolding trimEnd_def by (cases s rule: rev_cases) auto

lemma trimStart_nonws: "s \<noteq> [] \<Longrightarrow> \<not> isWhiteSpace (hd s) \<Longrightarrow> trimStart s = s"
  unfolding trimStart_def by (cases s) auto

lemma trim_fixed: "s \<noteq> [] \<Longrightarrow> \<not> isWhiteSpace (hd s) \<Longrightarrow> \<not> isWhiteSpace (last s) \<Longrightarrow> trim s = s"
  by (simp add: trim_def trimStart_nonws trimEnd_nonws)

lemma trimEnd_last: "trimEnd s \<noteq> [] \<Longrightarrow> \<not> isWhiteSpace (last (trimEnd s))"
  unfolding trimEnd_def
  by (metis (no_types, lifting) dropWhile_eq_Nil_conv hd_dropWhile last_rev rev_is_Nil_conv)

lemma trimStart_hd: "trimStart s \<noteq> [] \<Longrightarrow> \<not> isWhiteSpace (hd (trimStart s))"
  unfolding trimStart_def by (metis hd_dropWhile)

lemma trimEnd_hd: "t \<noteq> [] \<Longrightarrow> \<not> isWhiteSpace (hd t) \<Longrightarrow> trimEnd t \<noteq> [] \<and> hd (trimEnd t) = hd t"
proof (induction t rule: rev_induct)
  case Nil then show ?case by simp
next
  case (snoc x xs)
  show ?case
  proof (cases "isWhiteSpace x")
    case False then show ?thesis by (simp add: trimEnd_def)
  next
    case True
    then have xs: "xs \<noteq> []" using snoc.prems by (cases xs) auto
    then have "hd (xs @ [x]) = hd xs" by simp
    moreover have "trimEnd (xs @ [x]) = trimEnd xs" using True by (simp add: trimEnd_def)
    ultimately show ?thesis using snoc xs by simp
  qed
qed

lemma trim_hd_last: "trim s \<noteq> [] \<Longrightarrow> \<not> isWhiteSpace (hd (trim s)) \<and> \<not> isWhiteSpace (last (trim s))"
  unfolding trim_def
  by (metis trimEnd_def trimEnd_hd trimEnd_last trimStart_hd rev.simps(1) dropWhile.simps(1))

lemma trim_trim: "trim (trim s) = trim s"
proof (cases "trim s = []")
  case True
  have "trim [] = []" by (simp add: trim_def trimStart_def trimEnd_def)
  with True show ?thesis by simp
next
  case False
  then show ?thesis using trim_hd_last[OF False] by (simp add: trim_fixed)
qed

lemma colon_not_ws: "\<not> isWhiteSpace CHR '':''" "\<not> isWhiteSpace CHR ''a''"
  by (simp_all add: isWhiteSpace_def)

lemma last_app_trimmed:
  "t \<noteq> [] \<Longrightarrow> \<not> isWhiteSpace (last t) \<Longrightarrow> \<not> isWhiteSpace (last (p @ t))"
  by simp

lemma last_app_drop:
  assumes "raw \<noteq> []" "\<not> isWhiteSpace (last raw)" "q \<noteq> []" "\<not> isWhiteSpace (last q)"
  shows "\<not> isWhiteSpace (last (p @ r @ q @ drop n raw))"
proof (cases "drop n raw = []")
  case True then show ?thesis using assms by simp
next
  case False
  then have "n < length raw" by simp
  then have "last (drop n raw) = last raw" by (simp add: last_drop)
  then show ?thesis using False assms by simp
qed

lemma normalize_shape:
  "normalizeSessionKeyForAgent nid k a = trim k \<or>
   (prefix ''agent:'' (normalizeSessionKeyForAgent nid k a) \<and>
    \<not> isWhiteSpace (last (normalizeSessionKeyForAgent nid k a)))"
proof (cases "trim k = []")
  case True
  then show ?thesis by (simp add: normalizeSessionKeyForAgent_def)
next
  case False
  note ne = False
  have lw: "\<not> isWhiteSpace (last (trim k))" using trim_hd_last[OF False] by simp
  have sub: "\<not> isWhiteSpace (last (''agent:'' @ nid a @ '':subagent:'' @ drop (length ''subagent:'') (trim k)))"
    by (rule last_app_drop[OF ne lw]) (simp_all add: colon_not_ws)
  have tr: "\<And>p t. trim t \<noteq> [] \<Longrightarrow> \<not> isWhiteSpace (last (p @ trim t))"
    using trim_hd_last by simp
  show ?thesis
    unfolding normalizeSessionKeyForAgent_def Let_def
    using sub tr ne lw
    by (simp add: startsWith_def split: option.splits)
qed

lemma normalize_agent_fixed:
  assumes "prefix ''agent:'' s" "\<not> isWhiteSpace (last s)"
  shows "normalizeSessionKeyForAgent nid s a = s"
proof -
  from assms(1) obtain r where s: "s = ''agent:'' @ r" by (auto simp: prefix_def)
  then have "s \<noteq> []" "\<not> isWhiteSpace (hd s)" by (simp_all add: colon_not_ws)
  then have "trim s = s" using assms(2) by (simp add: trim_fixed)
  then show ?thesis using assms(1) \<open>s \<noteq> []\<close>
    by (simp add: normalizeSessionKeyForAgent_def startsWith_def)
qed

lemma normalize_trim: "normalizeSessionKeyForAgent nid (trim k) a = normalizeSessionKeyForAgent nid k a"
  by (simp add: normalizeSessionKeyForAgent_def trim_trim)


text \<open>
  Claim C4. For every key rewritten by one of the rules 2 to 6 and every agent id,
  normalizing the normalized key gives the normalized key again. The normalizer only looks
  at the trimmed key, a rewritten key starts with \<open>agent:\<close> and ends with a character that
  \<open>trim\<close> keeps, so the equation holds for every key, whatever \<open>normalizeAgentId\<close> returns;
  the keys of rules 2 to 6 are among them.
\<close>

theorem normalizeSessionKeyForAgent_idempotent:
  "normalizeSessionKeyForAgent nid (normalizeSessionKeyForAgent nid k a) a =
   normalizeSessionKeyForAgent nid k a"
  using normalize_shape[of nid k a] normalize_agent_fixed normalize_trim by metis

text \<open>
  Claim C8, as stated, fails: the function returns \<open>key.trim()\<close>, not \<open>key\<close>, so a key
  that starts with \<open>agent:\<close> and ends with a space comes back without the space.
\<close>

theorem normalizeSessionKeyForAgent_unchanged_counterexample:
  "startsWith ''agent:'' ''agent:main:main '' \<and> keyRule ''agent:main:main '' = 1 \<and>
   normalizeSessionKeyForAgent id ''agent:main:main '' ''default'' \<noteq> ''agent:main:main ''"
  by code_simp

text \<open>
  Claim C8, amended. The function is total (it has no failing branch), and a key that
  reaches none of the five rewriting returns, in particular one that starts with \<open>agent:\<close>
  once trimmed, is returned with its leading and trailing white space removed (so
  unchanged when it has none).
\<close>

theorem normalizeSessionKeyForAgent_unmatched:
  assumes "keyRule key = 0 \<or> keyRule key = 1 \<or> keyRule key = 7
           \<or> startsWith ''agent:'' (trim key)"
  shows "normalizeSessionKeyForAgent nid key a = trim key"
proof -
  define raw where "raw = trim key"
  define cleaned where
    "cleaned = trim (if startsWith ''group:'' (toLowerCase (trim (drop (length ''whatsapp:'') raw)))
                     then drop (length ''group:'') (trim (drop (length ''whatsapp:'') raw))
                     else trim (drop (length ''whatsapp:'') raw))"
  define c2 where "c2 = startsWith ''subagent:'' (toLowerCase raw)"
  define c3 where "c3 = startsWith ''group:'' raw"
  define c4 where "c4 = (\<not> includesStr '':'' raw \<and> includesStr ''@g.us'' (toLowerCase raw))"
  define c5 where
    "c5 = (startsWith ''whatsapp:'' (toLowerCase raw) \<and> includesStr ''@g.us'' (toLowerCase raw))"
  have k: "keyRule key =
      (if raw = [] then 0 else if startsWith ''agent:'' raw then 1 else if c2 then 2
       else if c3 then (if trim (drop (length ''group:'') raw) = [] then 7 else 3)
       else if c4 then 4
       else if c5 \<and> cleaned \<noteq> [] \<and> \<not> isSurfaceGroupKey raw then 5
       else if isSurfaceGroupKey raw then 6 else 7)"
    by (simp add: keyRule_def Let_def raw_def cleaned_def c2_def c3_def c4_def c5_def)
  have n: "normalizeSessionKeyForAgent nid key a =
      (if raw = [] then raw else if startsWith ''agent:'' raw then raw
       else if c2 then ''agent:'' @ nid a @ '':subagent:'' @ drop (length ''subagent:'') raw
       else if c3 then
         (if trim (drop (length ''group:'') raw) = [] then raw
          else ''agent:'' @ nid a @ '':'' @
               (if includesStr ''@g.us'' (toLowerCase (trim (drop (length ''group:'') raw)))
                then ''whatsapp'' else ''unknown'') @ '':group:'' @ trim (drop (length ''group:'') raw))
       else if c4 then ''agent:'' @ nid a @ '':whatsapp:group:'' @ raw
       else (case (if c5 then (if cleaned \<noteq> [] \<and> \<not> isSurfaceGroupKey raw
                               then Some (''agent:'' @ nid a @ '':whatsapp:group:'' @ cleaned)
                               else None) else None) of
               Some k \<Rightarrow> k
             | None \<Rightarrow> if isSurfaceGroupKey raw then ''agent:'' @ nid a @ '':'' @ raw else raw))"
    by (simp add: normalizeSessionKeyForAgent_def Let_def raw_def cleaned_def c2_def c3_def
        c4_def c5_def)
  show ?thesis
    using assms unfolding k n raw_def[symmetric]
    by (cases "raw = []"; cases "startsWith ''agent:'' raw"; cases c2; cases c3; cases c4;
        cases c5; cases "cleaned = []"; cases "isSurfaceGroupKey raw";
        cases "trim (drop (length ''group:'') raw) = []") simp_all
qed

theorem normalizeSessionKeyForAgent_unmatched_witness:
  "keyRule ''agent:main:main '' = 1 \<and>
   normalizeSessionKeyForAgent id ''agent:main:main '' ''default'' = trim ''agent:main:main '' \<and>
   trim ''agent:main:main '' = ''agent:main:main''"
proof -
  have h: "keyRule ''agent:main:main '' = 1" by code_simp
  then have h': "keyRule ''agent:main:main '' = 0 \<or> keyRule ''agent:main:main '' = 1
      \<or> keyRule ''agent:main:main '' = 7 \<or> startsWith ''agent:'' (trim ''agent:main:main '')"
    by blast
  have t: "trim ''agent:main:main '' = ''agent:main:main''" by code_simp
  show ?thesis
    using normalizeSessionKeyForAgent_unmatched[OF h', of id "''default''"] h t
    by simp
qed

section \<open>Properties of the sessions migration\<close>

lemma map_of_spread: "map_of (spread base over) = map_of base ++ map_of (rev over)"
  unfolding spread_def
proof (induction over arbitrary: base)
  case Nil then show ?case by simp
next
  case (Cons kv over)
  show ?case by (simp add: Cons.IH AList.update_conv' map_add_upd_left) (simp add: map_add_def fun_eq_iff split: option.splits)
qed

lemma map_of_rev_distinct: "distinct (map fst xs) \<Longrightarrow> map_of (rev xs) = map_of xs"
proof (induction xs)
  case Nil then show ?case by simp
next
  case (Cons x xs)
  then have "fst x \<notin> dom (map_of xs)" by (simp add: dom_map_of_conv_image_fst)
  then have "map_of xs (fst x) = None" by blast
  then show ?case using Cons
    by (cases x) (auto simp: map_add_def fun_eq_iff split: option.splits)
qed

lemma map_of_spread_distinct:
  "distinct (map fst over) \<Longrightarrow> map_of (spread base over) = map_of base ++ map_of over"
  by (simp add: map_of_spread map_of_rev_distinct)

lemma distinct_spread: "distinct (map fst base) \<Longrightarrow> distinct (map fst (spread base over))"
  unfolding spread_def by (induction over arbitrary: base) (simp_all add: AList.distinct_update)

lemma distinct_normalizedLegacy_aux:
  "distinct (map fst acc) \<Longrightarrow> distinct (map fst (fold (normalizeLegacyStep nid a) xs acc))"
  by (induction xs arbitrary: acc) (simp_all add: normalizeLegacyStep_def Let_def AList.distinct_update)

lemma distinct_normalizedLegacy: "distinct (map fst (normalizedLegacy nid a xs))"
  by (simp add: normalizedLegacy_def distinct_normalizedLegacy_aux)

lemma distinct_mergedSessions: "distinct (map fst (fst (mergedSessions nid a mk l t)))"
  by (simp add: mergedSessions_def Let_def distinct_spread distinct_normalizedLegacy
      AList.distinct_update split: option.splits)

lemma mergedSessions_target_entry:
  assumes "distinct (map fst targetStore)" and "map_of targetStore k = Some e"
  shows "map_of (fst (mergedSessions nid aid mainKey legacyStore targetStore)) k = Some e"
proof -
  let ?m = "spread (normalizedLegacy nid aid legacyStore) targetStore"
  have m: "map_of ?m k = Some e"
    using assms by (simp add: map_of_spread_distinct)
  then have "map_of ?m mainKey = None \<Longrightarrow> k \<noteq> mainKey" by auto
  then show ?thesis using m
    by (auto simp: mergedSessions_def Let_def AList.update_conv' split: option.splits)
qed

lemma js_gt_chain: "\<not> js_gt c b \<Longrightarrow> js_gt a b \<Longrightarrow> \<not> js_gt c a"
  by (cases a; cases b; cases c) auto

lemma js_gt_trans: "js_gt a b \<Longrightarrow> js_gt b c \<Longrightarrow> js_gt a c"
  by (cases a; cases b; cases c) auto

lemma js_gt_irrefl: "\<not> js_gt a a"
  by (cases a) auto

lemma pickLatestStep_cases:
  "pickLatestStep ke acc =
     (if legacyDirectKey (fst ke) \<and> js_gt (comparedUpdatedAt (snd ke)) (snd acc)
      then (Some (snd ke), comparedUpdatedAt (snd ke)) else acc)"
  by (simp add: pickLatestStep_def legacyDirectKey_def comparedUpdatedAt_def Let_def)

lemma pickLatest_fold:
  assumes "fold pickLatestStep xs (b, bu) = (b', bu')"
  shows "(\<forall>ke \<in> set xs. legacyDirectKey (fst ke) \<longrightarrow> \<not> js_gt (comparedUpdatedAt (snd ke)) bu')
       \<and> (bu' = bu \<or> js_gt bu' bu)
       \<and> ((b', bu') = (b, bu) \<or>
          (\<exists>ke \<in> set xs. legacyDirectKey (fst ke) \<and> b' = Some (snd ke) \<and> bu' = comparedUpdatedAt (snd ke)))"
  using assms
proof (induction xs arbitrary: b bu)
  case Nil
  then show ?case by simp
next
  case (Cons x xs)
  show ?case
  proof (cases "legacyDirectKey (fst x) \<and> js_gt (comparedUpdatedAt (snd x)) bu")
    case True
    then have st: "pickLatestStep x (b, bu) = (Some (snd x), comparedUpdatedAt (snd x))"
      by (subst pickLatestStep_cases) simp
    have f: "fold pickLatestStep xs (Some (snd x), comparedUpdatedAt (snd x)) = (b', bu')"
      using Cons.prems st by simp
    note ih = Cons.IH[OF f]
    from ih have mono: "bu' = comparedUpdatedAt (snd x) \<or> js_gt bu' (comparedUpdatedAt (snd x))" by blast
    then have gt: "js_gt bu' bu" using True js_gt_trans by metis
    have nx: "\<not> js_gt (comparedUpdatedAt (snd x)) bu'"
      using mono js_gt_irrefl js_gt_chain by (metis js_gt_trans)
    show ?thesis using ih gt nx True by auto
  next
    case False
    then have st: "pickLatestStep x (b, bu) = (b, bu)"
      by (subst pickLatestStep_cases) auto
    have f: "fold pickLatestStep xs (b, bu) = (b', bu')"
      using Cons.prems st by simp
    note ih = Cons.IH[OF f]
    have "legacyDirectKey (fst x) \<Longrightarrow> \<not> js_gt (comparedUpdatedAt (snd x)) bu'"
      using False ih js_gt_chain by metis
    then show ?thesis using ih by auto
  qed
qed

lemma pickLatest_some:
  assumes "ke \<in> set legacy" "legacyDirectKey (fst ke)" "js_gt (comparedUpdatedAt (snd ke)) (Num (- 1))"
  shows "\<exists>best \<in> set legacy. legacyDirectKey (fst best)
           \<and> pickLatestLegacyDirectEntry legacy = Some (snd best)
           \<and> (\<forall>other \<in> set legacy. legacyDirectKey (fst other) \<longrightarrow>
                 \<not> js_gt (comparedUpdatedAt (snd other)) (comparedUpdatedAt (snd best)))"
proof -
  obtain b' bu' where f: "fold pickLatestStep legacy (None, Num (- 1)) = (b', bu')"
    by (cases "fold pickLatestStep legacy (None, Num (- 1))") auto
  note inv = pickLatest_fold[OF f]
  have "(b', bu') \<noteq> (None, Num (- 1))"
    using inv assms by auto
  then obtain best where "best \<in> set legacy" "legacyDirectKey (fst best)" "b' = Some (snd best)"
      "bu' = comparedUpdatedAt (snd best)"
    using inv by blast
  then show ?thesis using inv f by (auto simp: pickLatestLegacyDirectEntry_def)
qed

text \<open>
  Claim C5, as stated, fails: the scan also skips the key \<open>global\<close>, which is neither a
  group key nor prefixed with \<open>agent:\<close> or \<open>subagent:\<close>. Here the entry under \<open>global\<close> has
  the greatest \<open>updatedAt\<close> and a session id, no main key exists after the merge, and the
  entry adopted is the older one of \<open>userA\<close>.
\<close>

theorem mergedSessions_adopts_latest_counterexample:
  "map_of (spread (normalizedLegacy id ''default''
     [(''global'', [(''sessionId'', JStr ''g''), (''updatedAt'', JNum (Num 100))]),
      (''userA'', [(''sessionId'', JStr ''s1''), (''updatedAt'', JNum (Num 10))])]) []) ''agent:default:main'' = None \<and>
   \<not> isLegacyGroupKey ''global'' \<and> \<not> isSurfaceGroupKey ''global'' \<and>
   \<not> startsWith ''agent:'' ''global'' \<and> \<not> startsWith ''subagent:'' (toLowerCase ''global'') \<and>
   js_gt (Num 100) (Num 10) \<and>
   map_of (fst (mergedSessions id ''default'' ''agent:default:main''
     [(''global'', [(''sessionId'', JStr ''g''), (''updatedAt'', JNum (Num 100))]),
      (''userA'', [(''sessionId'', JStr ''s1''), (''updatedAt'', JNum (Num 10))])] [])) ''agent:default:main''
     = Some [(''sessionId'', JStr ''s1''), (''updatedAt'', JNum (Num 10))] \<and>
   map_of (fst (mergedSessions id ''default'' ''agent:default:main''
     [(''global'', [(''sessionId'', JStr ''g''), (''updatedAt'', JNum (Num 100))]),
      (''userA'', [(''sessionId'', JStr ''s1''), (''updatedAt'', JNum (Num 10))])] [])) ''agent:default:main''
     \<noteq> Some [(''sessionId'', JStr ''g''), (''updatedAt'', JNum (Num 100))]"
  by code_simp

text \<open>
  Claim C5, amended. When the merged store has no entry under the main key and the legacy
  store has an entry that the scan can pick (its key is not blank, not \<open>global\<close>, not a
  legacy or surface group key, not prefixed with \<open>agent:\<close> or \<open>subagent:\<close>, and its
  \<open>updatedAt\<close>, counted as 0 when it is not a number, is greater than -1), the scan picks
  such an entry whose \<open>updatedAt\<close> no other such entry exceeds, and that entry becomes the
  main entry provided its \<open>sessionId\<close> is truthy.
\<close>

theorem mergedSessions_adopts_latest_direct:
  assumes "map_of (spread (normalizedLegacy nid aid legacyStore) targetStore) mainKey = None"
    and "ke \<in> set legacyStore" and "legacyDirectKey (fst ke)"
    and "js_gt (comparedUpdatedAt (snd ke)) (Num (- 1))"
  shows "\<exists>best \<in> set legacyStore. legacyDirectKey (fst best)
           \<and> (\<forall>other \<in> set legacyStore. legacyDirectKey (fst other) \<longrightarrow>
                 \<not> js_gt (comparedUpdatedAt (snd other)) (comparedUpdatedAt (snd best)))
           \<and> (truthy (getProp ''sessionId'' (snd best)) \<longrightarrow>
                map_of (fst (mergedSessions nid aid mainKey legacyStore targetStore)) mainKey
                  = Some (snd best))"
proof -
  from pickLatest_some[OF assms(2-4)] obtain best where
    b: "best \<in> set legacyStore" "legacyDirectKey (fst best)"
       "pickLatestLegacyDirectEntry legacyStore = Some (snd best)"
       "\<forall>other \<in> set legacyStore. legacyDirectKey (fst other) \<longrightarrow>
                 \<not> js_gt (comparedUpdatedAt (snd other)) (comparedUpdatedAt (snd best))"
    by blast
  have "truthy (getProp ''sessionId'' (snd best)) \<Longrightarrow>
        map_of (fst (mergedSessions nid aid mainKey legacyStore targetStore)) mainKey
          = Some (snd best)"
    using assms(1) b(3) by (simp add: mergedSessions_def Let_def AList.update_conv')
  then show ?thesis using b by blast
qed

theorem mergedSessions_adopts_latest_direct_witness:
  "map_of (spread (normalizedLegacy id ''default''
     [(''userA'', [(''sessionId'', JStr ''s1''), (''updatedAt'', JNum (Num 10))]),
      (''userB'', [(''sessionId'', JStr ''s2''), (''updatedAt'', JNum (Num 20))])]) []) ''agent:default:main'' = None \<and>
   (''userA'', [(''sessionId'', JStr ''s1''), (''updatedAt'', JNum (Num 10))]) \<in> set
     [(''userA'', [(''sessionId'', JStr ''s1''), (''updatedAt'', JNum (Num 10))]),
      (''userB'', [(''sessionId'', JStr ''s2''), (''updatedAt'', JNum (Num 20))])] \<and>
   legacyDirectKey ''userA'' \<and>
   js_gt (comparedUpdatedAt [(''sessionId'', JStr ''s1''), (''updatedAt'', JNum (Num 10))]) (Num (- 1)) \<and>
   map_of (fst (mergedSessions id ''default'' ''agent:default:main''
     [(''userA'', [(''sessionId'', JStr ''s1''), (''updatedAt'', JNum (Num 10))]),
      (''userB'', [(''sessionId'', JStr ''s2''), (''updatedAt'', JNum (Num 20))])] [])) ''agent:default:main''
     = Some [(''sessionId'', JStr ''s2''), (''updatedAt'', JNum (Num 20))]"
proof -
  have h1: "map_of (spread (normalizedLegacy id ''default''
     [(''userA'', [(''sessionId'', JStr ''s1''), (''updatedAt'', JNum (Num 10))]),
      (''userB'', [(''sessionId'', JStr ''s2''), (''updatedAt'', JNum (Num 20))])]) []) ''agent:default:main'' = None"
    by code_simp
  have h2: "(''userA'', [(''sessionId'', JStr ''s1''), (''updatedAt'', JNum (Num 10))]) \<in> set
     [(''userA'', [(''sessionId'', JStr ''s1''), (''updatedAt'', JNum (Num 10))]),
      (''userB'', [(''sessionId'', JStr ''s2''), (''updatedAt'', JNum (Num 20))])]"
    by simp
  have h3: "legacyDirectKey (fst (''userA'', [(''sessionId'', JStr ''s1''), (''updatedAt'', JNum (Num 10))]))"
    by code_simp
  have h4: "js_gt (comparedUpdatedAt (snd (''userA'', [(''sessionId'', JStr ''s1''), (''updatedAt'', JNum (Num 10))]))) (Num (- 1))"
    by code_simp
  have v: "map_of (fst (mergedSessions id ''default'' ''agent:default:main''
     [(''userA'', [(''sessionId'', JStr ''s1''), (''updatedAt'', JNum (Num 10))]),
      (''userB'', [(''sessionId'', JStr ''s2''), (''updatedAt'', JNum (Num 20))])] [])) ''agent:default:main''
     = Some [(''sessionId'', JStr ''s2''), (''updatedAt'', JNum (Num 20))]"
    by code_simp
  show ?thesis
    using mergedSessions_adopts_latest_direct[OF h1 h2 h3 h4] h1 h2 h3 h4 v
    by simp
qed

lemma getProp_update: "getProp n (AList.update m v e) = (if n = m then v else getProp n e)"
  by (simp add: getProp_def AList.update_conv')

lemma normalizeSessionEntry_None:
  "(\<forall>s. getProp ''sessionId'' e \<noteq> JStr s) \<Longrightarrow> normalizeSessionEntry clock t e = (None, t)"
  by (cases "getProp ''sessionId'' e") (simp_all add: normalizeSessionEntry_def)

lemma normalizeSessionEntry_Some:
  assumes "normalizeSessionEntry clock t e = (Some e', t')"
  shows "(if isFiniteNumber (getProp ''updatedAt'' e)
          then getProp ''updatedAt'' e' = getProp ''updatedAt'' e \<and> t' = t
          else getProp ''updatedAt'' e' = JNum (Num (clock t)) \<and> t' = Suc t)"
  using assms
  by (cases "getProp ''sessionId'' e")
     (auto simp: normalizeSessionEntry_def Let_def getProp_update split: if_splits)

lemma normalizeSessionEntry_ticks: "t \<le> snd (normalizeSessionEntry clock t e)"
  by (cases "getProp ''sessionId'' e") (simp_all add: normalizeSessionEntry_def Let_def)

lemma normalizeEntries_ticks: "t \<le> snd (normalizeEntries clock t xs acc)"
proof (induction xs arbitrary: t acc)
  case Nil then show ?case by simp
next
  case (Cons x xs)
  obtain r t1 where n: "normalizeSessionEntry clock t (snd x) = (r, t1)"
    by (cases "normalizeSessionEntry clock t (snd x)") auto
  then have "t \<le> t1" using normalizeSessionEntry_ticks[of t clock "snd x"] by simp
  then show ?case using n Cons.IH[of t1] by (cases r) (auto intro: le_trans)
qed

lemma normalizeEntries_other:
  "k \<notin> fst ` set xs \<Longrightarrow> map_of (fst (normalizeEntries clock t xs acc)) k = map_of acc k"
proof (induction xs arbitrary: t acc)
  case Nil then show ?case by simp
next
  case (Cons x xs)
  obtain r t1 where n: "normalizeSessionEntry clock t (snd x) = (r, t1)"
    by (cases "normalizeSessionEntry clock t (snd x)") auto
  show ?case using n Cons by (cases r) (auto simp: AList.update_conv')
qed


lemma normalizeEntries_lookup:
  assumes "distinct (map fst xs)" "map_of xs k = Some e"
  shows "\<exists>i r tn. t \<le> i \<and> normalizeSessionEntry clock i e = (r, tn)
           \<and> tn \<le> snd (normalizeEntries clock t xs acc)
           \<and> map_of (fst (normalizeEntries clock t xs acc)) k
               = (case r of None \<Rightarrow> map_of acc k
                  | Some e' \<Rightarrow> if k = ''__proto__'' then map_of acc k else Some e')"
  using assms
proof (induction xs arbitrary: t acc)
  case Nil then show ?case by simp
next
  case (Cons x xs)
  obtain r t1 where n: "normalizeSessionEntry clock t (snd x) = (r, t1)"
    by (cases "normalizeSessionEntry clock t (snd x)") auto
  have tt: "t \<le> t1" using normalizeSessionEntry_ticks[of t clock "snd x"] n by simp
  define acc1 where "acc1 = (case r of None \<Rightarrow> acc
      | Some ne \<Rightarrow> if fst x = ''__proto__'' then acc else AList.update (fst x) ne acc)"
  have step: "normalizeEntries clock t (x # xs) acc = normalizeEntries clock t1 xs acc1"
    using n by (cases r) (simp_all add: acc1_def)
  show ?case
  proof (cases "fst x = k")
    case True
    then have e: "snd x = e" using Cons.prems by (cases x) auto
    have nk: "k \<notin> fst ` set xs" using True Cons.prems by auto
    have a: "map_of acc1 k = (case r of None \<Rightarrow> map_of acc k
                  | Some e' \<Rightarrow> if k = ''__proto__'' then map_of acc k else Some e')"
      using True by (cases r) (simp_all add: acc1_def AList.update_conv')
    have "map_of (fst (normalizeEntries clock t1 xs acc1)) k = map_of acc1 k"
      by (rule normalizeEntries_other[OF nk])
    moreover have "t1 \<le> snd (normalizeEntries clock t1 xs acc1)"
      by (rule normalizeEntries_ticks)
    ultimately have "t \<le> t \<and> normalizeSessionEntry clock t e = (r, t1)
           \<and> t1 \<le> snd (normalizeEntries clock t (x # xs) acc)
           \<and> map_of (fst (normalizeEntries clock t (x # xs) acc)) k
               = (case r of None \<Rightarrow> map_of acc k
                  | Some e' \<Rightarrow> if k = ''__proto__'' then map_of acc k else Some e')"
      unfolding step using n e a by simp
    then show ?thesis by blast
  next
    case False
    then have m: "map_of xs k = Some e" and d: "distinct (map fst xs)"
      using Cons.prems by (cases x; auto)+
    have a: "map_of acc1 k = map_of acc k"
      using False by (cases r) (simp_all add: acc1_def AList.update_conv')
    from Cons.IH[OF d m, of t1 acc1] obtain i r' tn where
      "t1 \<le> i" "normalizeSessionEntry clock i e = (r', tn)"
      "tn \<le> snd (normalizeEntries clock t1 xs acc1)"
      "map_of (fst (normalizeEntries clock t1 xs acc1)) k
               = (case r' of None \<Rightarrow> map_of acc1 k
                  | Some e' \<Rightarrow> if k = ''__proto__'' then map_of acc1 k else Some e')"
      by blast
    then have "t \<le> i \<and> normalizeSessionEntry clock i e = (r', tn)
           \<and> tn \<le> snd (normalizeEntries clock t (x # xs) acc)
           \<and> map_of (fst (normalizeEntries clock t (x # xs) acc)) k
               = (case r' of None \<Rightarrow> map_of acc k
                  | Some e' \<Rightarrow> if k = ''__proto__'' then map_of acc k else Some e')"
      unfolding step using tt a by (cases r') auto
    then show ?thesis by blast
  qed
qed

lemma normalizeEntries_saved:
  assumes d: "distinct (map fst merged)"
  shows "(\<forall>k e. map_of merged k = Some e \<longrightarrow> (\<forall>s. getProp ''sessionId'' e \<noteq> JStr s) \<longrightarrow>
            map_of (fst (normalizeEntries clock t merged [])) k = None)
       \<and> (\<forall>k e'. map_of (fst (normalizeEntries clock t merged [])) k = Some e' \<longrightarrow>
            (\<exists>e. map_of merged k = Some e \<and>
               (if isFiniteNumber (getProp ''updatedAt'' e)
                then getProp ''updatedAt'' e' = getProp ''updatedAt'' e
                else \<exists>i. t \<le> i \<and> i < snd (normalizeEntries clock t merged [])
                       \<and> getProp ''updatedAt'' e' = JNum (Num (clock i)))))"
proof (intro conjI allI impI)
  fix k e
  assume m: "map_of merged k = Some e" and ns: "\<forall>s. getProp ''sessionId'' e \<noteq> JStr s"
  from normalizeEntries_lookup[OF d m, of t clock "[]"] obtain i r tn where
    "normalizeSessionEntry clock i e = (r, tn)"
    "map_of (fst (normalizeEntries clock t merged [])) k
       = (case r of None \<Rightarrow> map_of [] k
          | Some e' \<Rightarrow> if k = ''__proto__'' then map_of [] k else Some e')"
    by blast
  then show "map_of (fst (normalizeEntries clock t merged [])) k = None"
    using normalizeSessionEntry_None[OF ns, of clock i] by simp
next
  fix k e'
  assume w: "map_of (fst (normalizeEntries clock t merged [])) k = Some e'"
  have "k \<in> fst ` set merged"
  proof (rule ccontr)
    assume "k \<notin> fst ` set merged"
    from normalizeEntries_other[OF this, of clock t "[]"] w show False by simp
  qed
  then obtain e where m: "map_of merged k = Some e"
    by (metis domD dom_map_of_conv_image_fst)
  from normalizeEntries_lookup[OF d m, of t clock "[]"] obtain i r tn where
    ti: "t \<le> i" and n: "normalizeSessionEntry clock i e = (r, tn)" and
    tn: "tn \<le> snd (normalizeEntries clock t merged [])" and
    l: "map_of (fst (normalizeEntries clock t merged [])) k
       = (case r of None \<Rightarrow> map_of [] k
          | Some e' \<Rightarrow> if k = ''__proto__'' then map_of [] k else Some e')"
    by blast
  from l w have r: "r = Some e'" by (cases r) (simp_all split: if_splits)
  note s = normalizeSessionEntry_Some[OF n[unfolded r]]
  show "\<exists>e. map_of merged k = Some e \<and>
               (if isFiniteNumber (getProp ''updatedAt'' e)
                then getProp ''updatedAt'' e' = getProp ''updatedAt'' e
                else \<exists>i. t \<le> i \<and> i < snd (normalizeEntries clock t merged [])
                       \<and> getProp ''updatedAt'' e' = JNum (Num (clock i)))"
  proof (cases "isFiniteNumber (getProp ''updatedAt'' e)")
    case True
    then show ?thesis using m s by auto
  next
    case False
    then have "getProp ''updatedAt'' e' = JNum (Num (clock i))" "tn = Suc i" using s by simp_all
    then have "t \<le> i \<and> i < snd (normalizeEntries clock t merged [])
                       \<and> getProp ''updatedAt'' e' = JNum (Num (clock i))"
      using ti tn by simp
    then show ?thesis using m False by auto
  qed
qed

text \<open>
  Claim C10. When the migration writes the merged store, an entry of the merged store
  whose \<open>sessionId\<close> is not a string is not in the written store, and every written entry
  comes from the merged entry of its key with the same \<open>updatedAt\<close> if that was a finite
  number, and with a reading of the clock taken during the write otherwise.
\<close>

theorem migrateLegacySessions_saved_entries:
  assumes "sm_saved (migrateLegacySessions nid bm clock t detected legacyParsed targetParsed)
             = Some written"
  shows "(\<forall>k e. map_of (sm_merged (migrateLegacySessions nid bm clock t detected legacyParsed
                    targetParsed)) k = Some e \<longrightarrow>
            (\<forall>s. getProp ''sessionId'' e \<noteq> JStr s) \<longrightarrow> map_of written k = None)
       \<and> (\<forall>k e'. map_of written k = Some e' \<longrightarrow>
            (\<exists>e. map_of (sm_merged (migrateLegacySessions nid bm clock t detected legacyParsed
                    targetParsed)) k = Some e \<and>
               (if isFiniteNumber (getProp ''updatedAt'' e)
                then getProp ''updatedAt'' e' = getProp ''updatedAt'' e
                else \<exists>i. t \<le> i
                       \<and> i < sm_ticks (migrateLegacySessions nid bm clock t detected legacyParsed
                                targetParsed)
                       \<and> getProp ''updatedAt'' e' = JNum (Num (clock i)))))"
proof -
  define merged where
    "merged = fst (mergedSessions nid (targetAgentId detected)
        (bm (targetAgentId detected) (targetMainKey detected)) (fst legacyParsed) (fst targetParsed))"
  have c: "sessions_hasLegacy detected \<and> snd legacyParsed
           \<and> (fst legacyParsed \<noteq> [] \<or> fst targetParsed \<noteq> [])"
    using assms by (auto simp: migrateLegacySessions_def Let_def split: if_splits)
  have m: "sm_merged (migrateLegacySessions nid bm clock t detected legacyParsed targetParsed)
             = merged"
    using c by (auto simp: migrateLegacySessions_def Let_def merged_def)
  have w: "written = fst (normalizeEntries clock t merged [])"
    using c assms by (auto simp: migrateLegacySessions_def Let_def merged_def)
  have k: "sm_ticks (migrateLegacySessions nid bm clock t detected legacyParsed targetParsed)
             = snd (normalizeEntries clock t merged [])"
    using c by (auto simp: migrateLegacySessions_def Let_def merged_def)
  have d: "distinct (map fst merged)"
    unfolding merged_def by (rule distinct_mergedSessions)
  show ?thesis
    unfolding m w k by (rule normalizeEntries_saved[OF d])
qed

theorem migrateLegacySessions_saved_entries_witness:
  "sm_saved (migrateLegacySessions id buildAgentMainSessionKey_spec of_nat 0
     \<lparr>targetAgentId = ''default'', targetMainKey = ''main'', stateDir = ''/s'', oauthDir = ''/o'',
      sessions_legacyDir = ''/s/sessions'', sessions_legacyStorePath = ''/s/sessions/sessions.json'',
      sessions_targetDir = ''/s/agents/default/sessions'',
      sessions_targetStorePath = ''/s/agents/default/sessions/sessions.json'',
      sessions_hasLegacy = True, agentDir_legacyDir = ''/s/agent'',
      agentDir_targetDir = ''/s/agents/default/agent'', agentDir_hasLegacy = False,
      whatsappAuth_legacyDir = ''/o'', whatsappAuth_targetDir = ''/o/whatsapp/default'',
      whatsappAuth_hasLegacy = False, preview = []\<rparr>
     ([(''userA'', [(''sessionId'', JNum (Num 5)), (''updatedAt'', JNum (Num 10))]),
      (''userB'', [(''sessionId'', JStr ''s2''), (''updatedAt'', JStr ''soon'')])], True) ([], True))
     = Some [(''userB'', [(''sessionId'', JStr ''s2''), (''updatedAt'', JNum (Num (of_nat 0)))])] \<and>
   map_of (sm_merged (migrateLegacySessions id buildAgentMainSessionKey_spec of_nat 0
     \<lparr>targetAgentId = ''default'', targetMainKey = ''main'', stateDir = ''/s'', oauthDir = ''/o'',
      sessions_legacyDir = ''/s/sessions'', sessions_legacyStorePath = ''/s/sessions/sessions.json'',
      sessions_targetDir = ''/s/agents/default/sessions'',
      sessions_targetStorePath = ''/s/agents/default/sessions/sessions.json'',
      sessions_hasLegacy = True, agentDir_legacyDir = ''/s/agent'',
      agentDir_targetDir = ''/s/agents/default/agent'', agentDir_hasLegacy = False,
      whatsappAuth_legacyDir = ''/o'', whatsappAuth_targetDir = ''/o/whatsapp/default'',
      whatsappAuth_hasLegacy = False, preview = []\<rparr>
     ([(''userA'', [(''sessionId'', JNum (Num 5)), (''updatedAt'', JNum (Num 10))]),
      (''userB'', [(''sessionId'', JStr ''s2''), (''updatedAt'', JStr ''soon'')])], True) ([], True))) ''userA''
     = Some [(''sessionId'', JNum (Num 5)), (''updatedAt'', JNum (Num 10))] \<and>
   map_of [(''userB'', [(''sessionId'', JStr ''s2''), (''updatedAt'', JNum (Num (of_nat 0)))])]
     ''userA'' = None"
proof -
  have h: "sm_saved (migrateLegacySessions id buildAgentMainSessionKey_spec of_nat 0
     \<lparr>targetAgentId = ''default'', targetMainKey = ''main'', stateDir = ''/s'', oauthDir = ''/o'',
      sessions_legacyDir = ''/s/sessions'', sessions_legacyStorePath = ''/s/sessions/sessions.json'',
      sessions_targetDir = ''/s/agents/default/sessions'',
      sessions_targetStorePath = ''/s/agents/default/sessions/sessions.json'',
      sessions_hasLegacy = True, agentDir_legacyDir = ''/s/agent'',
      agentDir_targetDir = ''/s/agents/default/agent'', agentDir_hasLegacy = False,
      whatsappAuth_legacyDir = ''/o'', whatsappAuth_targetDir = ''/o/whatsapp/default'',
      whatsappAuth_hasLegacy = False, preview = []\<rparr>
     ([(''userA'', [(''sessionId'', JNum (Num 5)), (''updatedAt'', JNum (Num 10))]),
      (''userB'', [(''sessionId'', JStr ''s2''), (''updatedAt'', JStr ''soon'')])], True) ([], True))
     = Some [(''userB'', [(''sessionId'', JStr ''s2''), (''updatedAt'', JNum (Num (of_nat 0)))])]"
    by code_simp
  have m: "map_of (sm_merged (migrateLegacySessions id buildAgentMainSessionKey_spec of_nat 0
     \<lparr>targetAgentId = ''default'', targetMainKey = ''main'', stateDir = ''/s'', oauthDir = ''/o'',
      sessions_legacyDir = ''/s/sessions'', sessions_legacyStorePath = ''/s/sessions/sessions.json'',
      sessions_targetDir = ''/s/agents/default/sessions'',
      sessions_targetStorePath = ''/s/agents/default/sessions/sessions.json'',
      sessions_hasLegacy = True, agentDir_legacyDir = ''/s/agent'',
      agentDir_targetDir = ''/s/agents/default/agent'', agentDir_hasLegacy = False,
      whatsappAuth_legacyDir = ''/o'', whatsappAuth_targetDir = ''/o/whatsapp/default'',
      whatsappAuth_hasLegacy = False, preview = []\<rparr>
     ([(''userA'', [(''sessionId'', JNum (Num 5)), (''updatedAt'', JNum (Num 10))]),
      (''userB'', [(''sessionId'', JStr ''s2''), (''updatedAt'', JStr ''soon'')])], True) ([], True))) ''userA''
     = Some [(''sessionId'', JNum (Num 5)), (''updatedAt'', JNum (Num 10))]"
    by code_simp
  have n: "\<forall>s. getProp ''sessionId'' [(''sessionId'', JNum (Num 5)), (''updatedAt'', JNum (Num 10))]
             \<noteq> JStr s"
    by (simp add: getProp_def)
  from migrateLegacySessions_saved_entries[OF h] m n
  have "map_of [(''userB'', [(''sessionId'', JStr ''s2''), (''updatedAt'', JNum (Num (of_nat 0)))])]
     ''userA'' = None"
    by blast
  then show ?thesis using h m by simp
qed

lemma normalizeSessionEntry_dropped:
  assumes "\<not> (\<exists>s. getProp ''sessionId'' e = JStr s \<and> s \<noteq> [])"
  shows "normalizeSessionEntry clock t e = (None, t)"
  using assms by (cases "getProp ''sessionId'' e") (simp_all add: normalizeSessionEntry_def)

lemma normalizeSessionEntry_kept:
  assumes "getProp ''sessionId'' e = JStr s" and "s \<noteq> []"
  shows "\<exists>e'. fst (normalizeSessionEntry clock t e) = Some e'
           \<and> (\<forall>p. p \<noteq> ''updatedAt'' \<longrightarrow> getProp p e' = getProp p e)"
  using assms by (simp add: normalizeSessionEntry_def Let_def getProp_update)

text \<open>
  Claim C1, as stated, fails for the store that the migration writes: an entry of the
  target store is dropped from it when its \<open>sessionId\<close> is not a string. Here the legacy
  key \<open>slack:channel:c1\<close> normalizes to the key of a target entry that has no \<open>sessionId\<close>;
  the merged store keeps the target's entry, and the store handed to \<open>saveSessionStore\<close>
  for the target path has no entry under that key.
\<close>

theorem migrateLegacySessions_drops_target_counterexample:
  "normalizeSessionKeyForAgent id ''slack:channel:c1'' ''default''
     = ''agent:default:slack:channel:c1'' \<and>
   map_of (sm_merged (migrateLegacySessions id buildAgentMainSessionKey_spec of_nat 0 exampleDetection
       ([(''slack:channel:c1'', [(''sessionId'', JStr ''l1''), (''updatedAt'', JNum (Num 1))])], True)
       ([(''agent:default:slack:channel:c1'',
         [(''updatedAt'', JNum (Num 3)), (''thinkingLevel'', JStr ''high'')])], True))) ''agent:default:slack:channel:c1''
     = Some [(''updatedAt'', JNum (Num 3)), (''thinkingLevel'', JStr ''high'')] \<and>
   sm_saved (migrateLegacySessions id buildAgentMainSessionKey_spec of_nat 0 exampleDetection
       ([(''slack:channel:c1'', [(''sessionId'', JStr ''l1''), (''updatedAt'', JNum (Num 1))])], True)
       ([(''agent:default:slack:channel:c1'',
         [(''updatedAt'', JNum (Num 3)), (''thinkingLevel'', JStr ''high'')])], True)) = Some [] \<and>
   map_of [] ''agent:default:slack:channel:c1''
     \<noteq> Some [(''updatedAt'', JNum (Num 3)), (''thinkingLevel'', JStr ''high'')]"
  by code_simp

text \<open>
  Claim C1, amended. Whatever the legacy store holds, every key of the target store (so
  every key present in both stores once the legacy keys are normalized) is mapped by the
  merged store to the target's entry: legacy entries only fill the other keys. When the
  migration writes the merged store, a target entry whose \<open>sessionId\<close> is a non-empty
  string, under a key other than \<open>__proto__\<close>, is written under its key with every property
  but \<open>updatedAt\<close> as in the target, and with the same \<open>updatedAt\<close> if that was a finite
  number, a reading of the clock taken during the write otherwise; any other target entry
  is not written. The keys of a store are those of an object, so they are pairwise distinct.
\<close>

theorem migrateLegacySessions_keeps_target:
  assumes "sessions_hasLegacy detected"
    and "distinct (map fst (fst targetParsed))"
    and "map_of (fst targetParsed) k = Some e"
  shows "map_of (sm_merged (migrateLegacySessions nid bm clock t detected legacyParsed targetParsed)) k = Some e
       \<and> (\<forall>written. sm_saved (migrateLegacySessions nid bm clock t detected legacyParsed targetParsed) = Some written \<longrightarrow>
            (if (\<exists>s. getProp ''sessionId'' e = JStr s \<and> s \<noteq> []) \<and> k \<noteq> ''__proto__''
             then \<exists>e'. map_of written k = Some e'
                    \<and> (\<forall>p. p \<noteq> ''updatedAt'' \<longrightarrow> getProp p e' = getProp p e)
                    \<and> (if isFiniteNumber (getProp ''updatedAt'' e)
                       then getProp ''updatedAt'' e' = getProp ''updatedAt'' e
                       else \<exists>i. t \<le> i
                              \<and> i < sm_ticks (migrateLegacySessions nid bm clock t detected legacyParsed targetParsed)
                              \<and> getProp ''updatedAt'' e' = JNum (Num (clock i)))
             else map_of written k = None))"
proof (intro conjI allI impI)
  define merged where
    "merged = fst (mergedSessions nid (targetAgentId detected)
        (bm (targetAgentId detected) (targetMainKey detected)) (fst legacyParsed) (fst targetParsed))"
  have m: "sm_merged (migrateLegacySessions nid bm clock t detected legacyParsed targetParsed) = merged"
    using assms(1) by (auto simp: migrateLegacySessions_def Let_def merged_def)
  have me: "map_of merged k = Some e"
    unfolding merged_def by (rule mergedSessions_target_entry[OF assms(2,3)])
  show "map_of (sm_merged (migrateLegacySessions nid bm clock t detected legacyParsed targetParsed)) k = Some e"
    unfolding m by (rule me)
  fix written
  assume s: "sm_saved (migrateLegacySessions nid bm clock t detected legacyParsed targetParsed) = Some written"
  have c: "snd legacyParsed \<and> (fst legacyParsed \<noteq> [] \<or> fst targetParsed \<noteq> [])"
    using s assms(1) by (auto simp: migrateLegacySessions_def Let_def split: if_splits)
  have w: "written = fst (normalizeEntries clock t merged [])"
    using c s assms(1) by (auto simp: migrateLegacySessions_def Let_def merged_def)
  have k: "sm_ticks (migrateLegacySessions nid bm clock t detected legacyParsed targetParsed) = snd (normalizeEntries clock t merged [])"
    using c assms(1) by (auto simp: migrateLegacySessions_def Let_def merged_def)
  have d: "distinct (map fst merged)"
    unfolding merged_def by (rule distinct_mergedSessions)
  from normalizeEntries_lookup[OF d me, of t clock "[]"] obtain i r tn where
    ti: "t \<le> i" and n: "normalizeSessionEntry clock i e = (r, tn)" and
    tn: "tn \<le> snd (normalizeEntries clock t merged [])" and
    l: "map_of written k
       = (case r of None \<Rightarrow> map_of [] k
          | Some e' \<Rightarrow> if k = ''__proto__'' then map_of [] k else Some e')"
    unfolding w by blast
  show "if (\<exists>s. getProp ''sessionId'' e = JStr s \<and> s \<noteq> []) \<and> k \<noteq> ''__proto__''
        then \<exists>e'. map_of written k = Some e'
               \<and> (\<forall>p. p \<noteq> ''updatedAt'' \<longrightarrow> getProp p e' = getProp p e)
               \<and> (if isFiniteNumber (getProp ''updatedAt'' e)
                  then getProp ''updatedAt'' e' = getProp ''updatedAt'' e
                  else \<exists>i. t \<le> i
                         \<and> i < sm_ticks (migrateLegacySessions nid bm clock t detected legacyParsed targetParsed)
                         \<and> getProp ''updatedAt'' e' = JNum (Num (clock i)))
        else map_of written k = None"
  proof (cases "(\<exists>s. getProp ''sessionId'' e = JStr s \<and> s \<noteq> []) \<and> k \<noteq> ''__proto__''")
    case True
    then obtain sid where sid: "getProp ''sessionId'' e = JStr sid" "sid \<noteq> []" by blast
    from normalizeSessionEntry_kept[OF sid, of clock i] n obtain e' where
      r: "r = Some e'" and p: "\<forall>p. p \<noteq> ''updatedAt'' \<longrightarrow> getProp p e' = getProp p e"
      by auto
    have wk: "map_of written k = Some e'" using l r True by simp
    note u = normalizeSessionEntry_Some[OF n[unfolded r]]
    have "if isFiniteNumber (getProp ''updatedAt'' e)
          then getProp ''updatedAt'' e' = getProp ''updatedAt'' e
          else \<exists>i. t \<le> i \<and> i < snd (normalizeEntries clock t merged [])
                 \<and> getProp ''updatedAt'' e' = JNum (Num (clock i))"
    proof (cases "isFiniteNumber (getProp ''updatedAt'' e)")
      case True
      then show ?thesis using u by simp
    next
      case False
      then have "getProp ''updatedAt'' e' = JNum (Num (clock i))" "tn = Suc i" using u by simp_all
      then have "t \<le> i \<and> i < snd (normalizeEntries clock t merged [])
                 \<and> getProp ''updatedAt'' e' = JNum (Num (clock i))"
        using ti tn by simp
      then show ?thesis using False by auto
    qed
    then show ?thesis using True wk p unfolding k by auto
  next
    case False
    have "map_of written k = None"
    proof (cases "\<exists>s. getProp ''sessionId'' e = JStr s \<and> s \<noteq> []")
      case True
      then have "k = ''__proto__''" using False by simp
      then show ?thesis using l by (cases r) simp_all
    next
      case False
      from normalizeSessionEntry_dropped[OF this, of clock i] n have "r = None" by simp
      then show ?thesis using l by simp
    qed
    then show ?thesis using False by simp
  qed
qed

theorem migrateLegacySessions_keeps_target_witness:
  "sessions_hasLegacy exampleDetection \<and>
   distinct (map fst [(''agent:default:whatsapp:group:1@g.us'',
         [(''sessionId'', JStr ''t1''), (''updatedAt'', JNum (Num 7))])]) \<and>
   map_of [(''agent:default:whatsapp:group:1@g.us'',
         [(''sessionId'', JStr ''t1''), (''updatedAt'', JNum (Num 7))])] ''agent:default:whatsapp:group:1@g.us''
     = Some [(''sessionId'', JStr ''t1''), (''updatedAt'', JNum (Num 7))] \<and>
   normalizeSessionKeyForAgent id ''group:1@g.us'' ''default'' = ''agent:default:whatsapp:group:1@g.us'' \<and>
   map_of (sm_merged (migrateLegacySessions id buildAgentMainSessionKey_spec of_nat 0 exampleDetection
       ([(''group:1@g.us'', [(''sessionId'', JStr ''l1''), (''updatedAt'', JNum (Num 9))])], True)
       ([(''agent:default:whatsapp:group:1@g.us'',
         [(''sessionId'', JStr ''t1''), (''updatedAt'', JNum (Num 7))])], True))) ''agent:default:whatsapp:group:1@g.us''
     = Some [(''sessionId'', JStr ''t1''), (''updatedAt'', JNum (Num 7))] \<and>
   sm_saved (migrateLegacySessions id buildAgentMainSessionKey_spec of_nat 0 exampleDetection
       ([(''group:1@g.us'', [(''sessionId'', JStr ''l1''), (''updatedAt'', JNum (Num 9))])], True)
       ([(''agent:default:whatsapp:group:1@g.us'',
         [(''sessionId'', JStr ''t1''), (''updatedAt'', JNum (Num 7))])], True))
     = Some [(''agent:default:whatsapp:group:1@g.us'', [(''sessionId'', JStr ''t1''), (''updatedAt'', JNum (Num 7))])] \<and>
   map_of [(''agent:default:whatsapp:group:1@g.us'', [(''sessionId'', JStr ''t1''), (''updatedAt'', JNum (Num 7))])] ''agent:default:whatsapp:group:1@g.us'' \<noteq> None"
proof -
  have h: "sessions_hasLegacy exampleDetection"
    by (simp add: exampleDetection_def)
  have d: "distinct (map fst (fst ([(''agent:default:whatsapp:group:1@g.us'',
         [(''sessionId'', JStr ''t1''), (''updatedAt'', JNum (Num 7))])], True)))"
    by simp
  have l: "map_of (fst ([(''agent:default:whatsapp:group:1@g.us'',
         [(''sessionId'', JStr ''t1''), (''updatedAt'', JNum (Num 7))])], True)) ''agent:default:whatsapp:group:1@g.us''
     = Some [(''sessionId'', JStr ''t1''), (''updatedAt'', JNum (Num 7))]"
    by simp
  have n: "normalizeSessionKeyForAgent id ''group:1@g.us'' ''default'' = ''agent:default:whatsapp:group:1@g.us''"
    by code_simp
  have s: "sm_saved (migrateLegacySessions id buildAgentMainSessionKey_spec of_nat 0 exampleDetection
       ([(''group:1@g.us'', [(''sessionId'', JStr ''l1''), (''updatedAt'', JNum (Num 9))])], True)
       ([(''agent:default:whatsapp:group:1@g.us'',
         [(''sessionId'', JStr ''t1''), (''updatedAt'', JNum (Num 7))])], True))
     = Some [(''agent:default:whatsapp:group:1@g.us'', [(''sessionId'', JStr ''t1''), (''updatedAt'', JNum (Num 7))])]"
    by code_simp
  have g: "getProp ''sessionId'' [(''sessionId'', JStr ''t1''), (''updatedAt'', JNum (Num 7))] = JStr ''t1''"
    by (simp add: getProp_def)
  note r = migrateLegacySessions_keeps_target[OF h d l, of id buildAgentMainSessionKey_spec
      of_nat 0 "([(''group:1@g.us'', [(''sessionId'', JStr ''l1''), (''updatedAt'', JNum (Num 9))])], True)"]
  from r s g have "map_of [(''agent:default:whatsapp:group:1@g.us'', [(''sessionId'', JStr ''t1''), (''updatedAt'', JNum (Num 7))])] ''agent:default:whatsapp:group:1@g.us'' \<noteq> None"
    by auto
  then show ?thesis using r h d l n s by simp
qed

section \<open>Properties of the automatic migration\<close>

lemma autoMigrate_checked:
  "autoMigrateChecked st \<Longrightarrow>
   autoMigrateLegacyState d ms ma env st
     = (\<lparr>migrated = False, skipped = True, changes = [], warnings = []\<rparr>, st)"
  by (simp add: autoMigrateLegacyState_def)

lemma autoMigrate_sets_flag:
  "autoMigrateChecked (snd (autoMigrateLegacyState d ms ma env st))"
  by (simp add: autoMigrateLegacyState_def Let_def)

lemma autoMigrateCalls_checked:
  "autoMigrateChecked st \<Longrightarrow>
   autoMigrateCalls d ms ma envs st
     = (replicate (length envs) \<lparr>migrated = False, skipped = True, changes = [], warnings = []\<rparr>, st)"
  by (induction envs) (simp_all add: autoMigrate_checked Let_def)

text \<open>
  Claim C6. In any sequence of calls, whatever the detection and the two routines do,
  every call after the first returns \<open>skipped = true\<close> with no changes and no warnings and
  leaves the whole state, file system included, as the first call left it: the routines
  run in the first call at most. And a call made while \<open>CLAWDBOT_AGENT_DIR\<close> or
  \<open>PI_CODING_AGENT_DIR\<close> is set to a non-blank value returns \<open>skipped = true\<close> and leaves the
  file system and the log untouched. The flag is reset only by the helper exported for
  tests, which is not a call of \<open>autoMigrateLegacyState\<close>.
\<close>

theorem autoMigrate_once:
  "autoMigrateCalls d ms ma (env # envs) st
     = (fst (autoMigrateLegacyState d ms ma env st)
          # replicate (length envs) \<lparr>migrated = False, skipped = True, changes = [], warnings = []\<rparr>,
        snd (autoMigrateLegacyState d ms ma env st))
   \<and> (envSet (CLAWDBOT_AGENT_DIR env') \<or> envSet (PI_CODING_AGENT_DIR env') \<longrightarrow>
        fst (autoMigrateLegacyState d ms ma env' st')
          = \<lparr>migrated = False, skipped = True, changes = [], warnings = []\<rparr>
        \<and> fileSystem (snd (autoMigrateLegacyState d ms ma env' st')) = fileSystem st'
        \<and> logInfo (snd (autoMigrateLegacyState d ms ma env' st')) = logInfo st'
        \<and> logWarn (snd (autoMigrateLegacyState d ms ma env' st')) = logWarn st')"
proof (intro conjI impI)
  show "autoMigrateCalls d ms ma (env # envs) st
     = (fst (autoMigrateLegacyState d ms ma env st)
          # replicate (length envs) \<lparr>migrated = False, skipped = True, changes = [], warnings = []\<rparr>,
        snd (autoMigrateLegacyState d ms ma env st))"
    by (simp add: Let_def autoMigrateCalls_checked[OF autoMigrate_sets_flag])
next
  assume e: "envSet (CLAWDBOT_AGENT_DIR env') \<or> envSet (PI_CODING_AGENT_DIR env')"
  then show "fst (autoMigrateLegacyState d ms ma env' st')
          = \<lparr>migrated = False, skipped = True, changes = [], warnings = []\<rparr>"
    by (simp add: autoMigrateLegacyState_def Let_def)
  from e show "fileSystem (snd (autoMigrateLegacyState d ms ma env' st')) = fileSystem st'"
    by (simp add: autoMigrateLegacyState_def Let_def)
  from e show "logInfo (snd (autoMigrateLegacyState d ms ma env' st')) = logInfo st'"
    by (simp add: autoMigrateLegacyState_def Let_def)
  from e show "logWarn (snd (autoMigrateLegacyState d ms ma env' st')) = logWarn st'"
    by (simp add: autoMigrateLegacyState_def Let_def)
qed

theorem autoMigrate_once_witness:
  "envSet (CLAWDBOT_AGENT_DIR \<lparr>CLAWDBOT_AGENT_DIR = Some ''/custom'', PI_CODING_AGENT_DIR = None\<rparr>) \<and>
   fst (autoMigrateLegacyState countingDetection countingRoutine countingRoutine
       \<lparr>CLAWDBOT_AGENT_DIR = Some ''/custom'', PI_CODING_AGENT_DIR = None\<rparr>
       \<lparr>autoMigrateChecked = False, fileSystem = 0 :: nat, logInfo = [], logWarn = []\<rparr>) = \<lparr>migrated = False, skipped = True, changes = [], warnings = []\<rparr> \<and>
   fileSystem (snd (autoMigrateLegacyState countingDetection countingRoutine countingRoutine
       \<lparr>CLAWDBOT_AGENT_DIR = Some ''/custom'', PI_CODING_AGENT_DIR = None\<rparr>
       \<lparr>autoMigrateChecked = False, fileSystem = 0 :: nat, logInfo = [], logWarn = []\<rparr>)) = 0 \<and>
   map skipped (fst (autoMigrateCalls countingDetection countingRoutine countingRoutine
       [\<lparr>CLAWDBOT_AGENT_DIR = None, PI_CODING_AGENT_DIR = None\<rparr>,
        \<lparr>CLAWDBOT_AGENT_DIR = None, PI_CODING_AGENT_DIR = None\<rparr>,
        \<lparr>CLAWDBOT_AGENT_DIR = None, PI_CODING_AGENT_DIR = None\<rparr>]
       \<lparr>autoMigrateChecked = False, fileSystem = 0 :: nat, logInfo = [], logWarn = []\<rparr>)) = [False, True, True] \<and>
   fileSystem (snd (autoMigrateCalls countingDetection countingRoutine countingRoutine
       [\<lparr>CLAWDBOT_AGENT_DIR = None, PI_CODING_AGENT_DIR = None\<rparr>,
        \<lparr>CLAWDBOT_AGENT_DIR = None, PI_CODING_AGENT_DIR = None\<rparr>,
        \<lparr>CLAWDBOT_AGENT_DIR = None, PI_CODING_AGENT_DIR = None\<rparr>]
       \<lparr>autoMigrateChecked = False, fileSystem = 0 :: nat, logInfo = [], logWarn = []\<rparr>)) = 2"
proof -
  have h1: "envSet (CLAWDBOT_AGENT_DIR \<lparr>CLAWDBOT_AGENT_DIR = Some ''/custom'', PI_CODING_AGENT_DIR = None\<rparr>)"
    by code_simp
  then have h: "envSet (CLAWDBOT_AGENT_DIR \<lparr>CLAWDBOT_AGENT_DIR = Some ''/custom'', PI_CODING_AGENT_DIR = None\<rparr>)
           \<or> envSet (PI_CODING_AGENT_DIR \<lparr>CLAWDBOT_AGENT_DIR = Some ''/custom'', PI_CODING_AGENT_DIR = None\<rparr>)"
    by blast
  have f: "fst (autoMigrateLegacyState countingDetection countingRoutine countingRoutine
       \<lparr>CLAWDBOT_AGENT_DIR = None, PI_CODING_AGENT_DIR = None\<rparr>
       \<lparr>autoMigrateChecked = False, fileSystem = 0 :: nat, logInfo = [], logWarn = []\<rparr>)
     = \<lparr>migrated = False, skipped = False, changes = [], warnings = []\<rparr>"
    by code_simp
  have g: "fileSystem (snd (autoMigrateLegacyState countingDetection countingRoutine countingRoutine
       \<lparr>CLAWDBOT_AGENT_DIR = None, PI_CODING_AGENT_DIR = None\<rparr>
       \<lparr>autoMigrateChecked = False, fileSystem = 0 :: nat, logInfo = [], logWarn = []\<rparr>)) = 2"
    by code_simp
  note t = autoMigrate_once[of countingDetection countingRoutine countingRoutine
       "\<lparr>CLAWDBOT_AGENT_DIR = None, PI_CODING_AGENT_DIR = None\<rparr>"
       "[\<lparr>CLAWDBOT_AGENT_DIR = None, PI_CODING_AGENT_DIR = None\<rparr>,
        \<lparr>CLAWDBOT_AGENT_DIR = None, PI_CODING_AGENT_DIR = None\<rparr>]"
       "\<lparr>autoMigrateChecked = False, fileSystem = 0 :: nat, logInfo = [], logWarn = []\<rparr>"
       "\<lparr>CLAWDBOT_AGENT_DIR = Some ''/custom'', PI_CODING_AGENT_DIR = None\<rparr>"
       "\<lparr>autoMigrateChecked = False, fileSystem = 0 :: nat, logInfo = [], logWarn = []\<rparr>"]
  show ?thesis using t h h1 f g by simp
qed

section \<open>Properties of the session lifecycle\<close>

lemma res_isNewSession_eq:
  "res_isNewSession (initSessionState c w ctx cfg ca)
     = (bodyStripped c ctx cfg ca \<noteq> None \<or> \<not> freshEntry c w ctx cfg)"
  by (simp add: initSessionState_def Let_def)

lemma res_bodyStripped_eq:
  "res_bodyStripped (initSessionState c w ctx cfg ca) = bodyStripped c ctx cfg ca"
  by (simp add: initSessionState_def Let_def)

lemma res_sessionKey_eq:
  "res_sessionKey (initSessionState c w ctx cfg ca) = sessionKey c ctx cfg"
  by (simp add: initSessionState_def Let_def)

lemma res_sessionId_reuse:
  assumes "bodyStripped c ctx cfg ca = None" "freshEntry c w ctx cfg" "entry c ctx cfg = Some e"
  shows "res_sessionId (initSessionState c w ctx cfg ca) = sessionId e"
  using assms by (simp add: initSessionState_def Let_def split: option.splits)

lemma res_sessionId_new:
  assumes "res_isNewSession (initSessionState c w ctx cfg ca)"
  shows "res_sessionId (initSessionState c w ctx cfg ca) = newId w \<or>
         (\<exists>pk pe f. ParentSessionKey ctx = Some pk \<and>
            map_of (sessionStore c ctx cfg) (trim pk) = Some pe \<and>
            forkSessionFromParent c w pe = Some f \<and>
            res_sessionId (initSessionState c w ctx cfg ca) = fst f)"
  using assms unfolding res_isNewSession_eq
  by (auto simp: initSessionState_def Let_def split: option.splits)

lemma sessionId_groupMetadata: "sessionId (groupMetadata c ctx g k e0) = sessionId e0"
  by (simp add: groupMetadata_def Let_def split: option.splits)

lemma sessionFile_groupMetadata: "sessionFile (groupMetadata c ctx g k e0) = sessionFile e0"
  by (simp add: groupMetadata_def Let_def split: option.splits)

lemma sessionId_entryLiteral: "sessionId (entryLiteral c w ctx reuse e sid ss ab) = sid"
  by (simp add: entryLiteral_def Let_def)

lemma sessionFile_entryLiteral_new: "sessionFile (entryLiteral c w ctx False e sid ss ab) = None"
  by (simp add: entryLiteral_def Let_def blankEntry_def)

lemma res_entry_sessionId:
  "sessionId (res_sessionEntry (initSessionState c w ctx cfg ca))
     = res_sessionId (initSessionState c w ctx cfg ca)"
  by (simp add: initSessionState_def Let_def sessionId_groupMetadata sessionId_entryLiteral
      split: option.splits)

lemma matchResetTrigger_unauthorized: "matchResetTrigger False tb sr ts = None"
  by (induction ts) simp_all

lemma matchResetTrigger_authorized:
  assumes "t \<in> set ts" "t \<noteq> []"
    and "tb = t \<or> sr = t \<or> startsWith (t @ '' '') tb \<or> startsWith (t @ '' '') sr"
  shows "matchResetTrigger True tb sr ts \<noteq> None"
  using assms by (induction ts) (auto simp: Let_def)


lemma idle_window_at_least_minute:
  assumes "js_le x (Num 60000)" "js_le (Num 1) m"
  shows "js_le x (js_mul m (Num 60000))"
proof (cases m)
  case (Num a)
  then have "1 \<le> a" using assms(2) by simp
  then have "60000 \<le> a * 60000" by simp
  from toDouble_ge_60000[OF this] show ?thesis using assms(1) Num by (cases x) auto
next
  case NaN then show ?thesis using assms by simp
next
  case PosInf then show ?thesis using assms by (cases x) auto
next
  case NegInf then show ?thesis using assms by simp
qed

lemma Math_max_one: "v \<noteq> NaN \<Longrightarrow> js_le (Num 1) (Math_max v (Num 1))"
  by (cases v) auto

lemma Math_max_clamp: "js_le v (Num 0) \<Longrightarrow> Math_max v (Num 1) = Num 1"
  by (cases v) auto


text \<open>
  Claim C2, as stated, fails: the loop skips an empty trigger (\<open>if (!trigger) continue\<close>).
  With \<open>resetTriggers = [""]\<close>, an authorized sender and an empty message body, the body
  equals the configured trigger, yet no reset occurs and the fresh entry is reused.
\<close>

theorem reset_trigger_empty_counterexample:
  "resolveCommandAuthorization exampleCollaborators (exampleCtx\<lparr>Body := Some []\<rparr>)
     \<lparr>session = Some (exampleSessionConfig\<lparr>cfg_resetTriggers := Some [[]]\<rparr>)\<rparr> True \<and>
   [] \<in> set (resetTriggers exampleCollaborators
     \<lparr>session = Some (exampleSessionConfig\<lparr>cfg_resetTriggers := Some [[]]\<rparr>)\<rparr>) \<and>
   trimmedBody (exampleCtx\<lparr>Body := Some []\<rparr>) = [] \<and>
   freshEntry exampleCollaborators exampleReadings (exampleCtx\<lparr>Body := Some []\<rparr>)
     \<lparr>session = Some (exampleSessionConfig\<lparr>cfg_resetTriggers := Some [[]]\<rparr>)\<rparr> \<and>
   \<not> res_isNewSession (initSessionState exampleCollaborators exampleReadings
     (exampleCtx\<lparr>Body := Some []\<rparr>)
     \<lparr>session = Some (exampleSessionConfig\<lparr>cfg_resetTriggers := Some [[]]\<rparr>)\<rparr> True) \<and>
   res_sessionId (initSessionState exampleCollaborators exampleReadings
     (exampleCtx\<lparr>Body := Some []\<rparr>)
     \<lparr>session = Some (exampleSessionConfig\<lparr>cfg_resetTriggers := Some [[]]\<rparr>)\<rparr> True)
     = ''stored-id''"
  by code_simp

text \<open>
  Claim C2, amended to non-empty triggers. If the trimmed body or its stripped, normalized
  form equals a non-empty reset trigger in force, or starts with it followed by a space,
  then for an authorized sender the session is new, with the id just generated (or the id
  of the fork made for it), even when a fresh entry exists; and for an unauthorized sender
  with a fresh entry the stored id is reused, the session is not new and no reset is
  recorded.
\<close>

theorem reset_trigger_new_session:
  assumes "t \<in> set (resetTriggers c cfg)" and "t \<noteq> []"
    and "trimmedBody ctx = t \<or> strippedForReset c ctx cfg = t
         \<or> startsWith (t @ '' '') (trimmedBody ctx)
         \<or> startsWith (t @ '' '') (strippedForReset c ctx cfg)"
  shows "(resolveCommandAuthorization c ctx cfg ca \<longrightarrow>
            res_isNewSession (initSessionState c w ctx cfg ca)
          \<and> (res_sessionId (initSessionState c w ctx cfg ca) = newId w \<or>
             (\<exists>pk pe f. ParentSessionKey ctx = Some pk \<and>
                map_of (sessionStore c ctx cfg) (trim pk) = Some pe \<and>
                forkSessionFromParent c w pe = Some f \<and>
                res_sessionId (initSessionState c w ctx cfg ca) = fst f)))
       \<and> (\<not> resolveCommandAuthorization c ctx cfg ca' \<longrightarrow>
            entry c ctx cfg = Some e \<longrightarrow> freshEntry c w ctx cfg \<longrightarrow>
            res_sessionId (initSessionState c w ctx cfg ca') = sessionId e
          \<and> \<not> res_isNewSession (initSessionState c w ctx cfg ca')
          \<and> res_bodyStripped (initSessionState c w ctx cfg ca') = None)"
proof (intro conjI impI)
  assume a: "resolveCommandAuthorization c ctx cfg ca"
  have b: "bodyStripped c ctx cfg ca \<noteq> None"
    unfolding bodyStripped_def using a matchResetTrigger_authorized[OF assms] by simp
  then show n: "res_isNewSession (initSessionState c w ctx cfg ca)"
    by (simp add: res_isNewSession_eq)
  show "res_sessionId (initSessionState c w ctx cfg ca) = newId w \<or>
             (\<exists>pk pe f. ParentSessionKey ctx = Some pk \<and>
                map_of (sessionStore c ctx cfg) (trim pk) = Some pe \<and>
                forkSessionFromParent c w pe = Some f \<and>
                res_sessionId (initSessionState c w ctx cfg ca) = fst f)"
    by (rule res_sessionId_new[OF n])
next
  assume u: "\<not> resolveCommandAuthorization c ctx cfg ca'"
    and e: "entry c ctx cfg = Some e" and f: "freshEntry c w ctx cfg"
  have b: "bodyStripped c ctx cfg ca' = None"
    unfolding bodyStripped_def using u matchResetTrigger_unauthorized by simp
  show "res_sessionId (initSessionState c w ctx cfg ca') = sessionId e"
    by (rule res_sessionId_reuse[OF b f e])
  show "\<not> res_isNewSession (initSessionState c w ctx cfg ca')"
    using b f by (simp add: res_isNewSession_eq)
  show "res_bodyStripped (initSessionState c w ctx cfg ca') = None"
    using b by (simp add: res_bodyStripped_eq)
qed


theorem reset_trigger_new_session_witness:
  "''/new'' \<in> set (resetTriggers exampleCollaborators \<lparr>session = None\<rparr>) \<and>
   startsWith (''/new'' @ '' '') (trimmedBody (exampleCtx\<lparr>Body := Some ''/new hi''\<rparr>)) \<and>
   resolveCommandAuthorization exampleCollaborators (exampleCtx\<lparr>Body := Some ''/new hi''\<rparr>)
     \<lparr>session = None\<rparr> True \<and>
   \<not> resolveCommandAuthorization exampleCollaborators (exampleCtx\<lparr>Body := Some ''/new hi''\<rparr>)
     \<lparr>session = None\<rparr> False \<and>
   freshEntry exampleCollaborators exampleReadings (exampleCtx\<lparr>Body := Some ''/new hi''\<rparr>)
     \<lparr>session = None\<rparr> \<and>
   res_isNewSession (initSessionState exampleCollaborators exampleReadings
     (exampleCtx\<lparr>Body := Some ''/new hi''\<rparr>) \<lparr>session = None\<rparr> True) \<and>
   res_sessionId (initSessionState exampleCollaborators exampleReadings
     (exampleCtx\<lparr>Body := Some ''/new hi''\<rparr>) \<lparr>session = None\<rparr> True) = ''new-id'' \<and>
   res_sessionId (initSessionState exampleCollaborators exampleReadings
     (exampleCtx\<lparr>Body := Some ''/new hi''\<rparr>) \<lparr>session = None\<rparr> False) = ''stored-id'' \<and>
   \<not> res_isNewSession (initSessionState exampleCollaborators exampleReadings
     (exampleCtx\<lparr>Body := Some ''/new hi''\<rparr>) \<lparr>session = None\<rparr> False)"
proof -
  have t: "''/new'' \<in> set (resetTriggers exampleCollaborators \<lparr>session = None\<rparr>)"
    by code_simp
  have ne: "''/new'' \<noteq> []" by simp
  have p: "startsWith (''/new'' @ '' '') (trimmedBody (exampleCtx\<lparr>Body := Some ''/new hi''\<rparr>))"
    by code_simp
  have m: "trimmedBody (exampleCtx\<lparr>Body := Some ''/new hi''\<rparr>) = ''/new''
      \<or> strippedForReset exampleCollaborators (exampleCtx\<lparr>Body := Some ''/new hi''\<rparr>)
           \<lparr>session = None\<rparr> = ''/new''
      \<or> startsWith (''/new'' @ '' '') (trimmedBody (exampleCtx\<lparr>Body := Some ''/new hi''\<rparr>))
      \<or> startsWith (''/new'' @ '' '')
           (strippedForReset exampleCollaborators (exampleCtx\<lparr>Body := Some ''/new hi''\<rparr>)
             \<lparr>session = None\<rparr>)"
    using p by blast
  have a: "resolveCommandAuthorization exampleCollaborators
     (exampleCtx\<lparr>Body := Some ''/new hi''\<rparr>) \<lparr>session = None\<rparr> True"
    by code_simp
  have u: "\<not> resolveCommandAuthorization exampleCollaborators
     (exampleCtx\<lparr>Body := Some ''/new hi''\<rparr>) \<lparr>session = None\<rparr> False"
    by code_simp
  have f: "freshEntry exampleCollaborators exampleReadings
     (exampleCtx\<lparr>Body := Some ''/new hi''\<rparr>) \<lparr>session = None\<rparr>"
    by code_simp
  have e: "entry exampleCollaborators (exampleCtx\<lparr>Body := Some ''/new hi''\<rparr>) \<lparr>session = None\<rparr>
     = Some (blankEntry\<lparr>sessionId := ''stored-id'', updatedAt := Num 1000000\<rparr>)"
    by code_simp
  have v: "res_sessionId (initSessionState exampleCollaborators exampleReadings
     (exampleCtx\<lparr>Body := Some ''/new hi''\<rparr>) \<lparr>session = None\<rparr> True) = ''new-id''"
    by code_simp
  have s: "sessionId (blankEntry\<lparr>sessionId := ''stored-id'', updatedAt := Num 1000000\<rparr>) = ''stored-id''"
    by (simp add: blankEntry_def)
  note r = reset_trigger_new_session[OF t ne m, of True exampleReadings False
      "blankEntry\<lparr>sessionId := ''stored-id'', updatedAt := Num 1000000\<rparr>"]
  show ?thesis using r t p a u f e v s by simp
qed





text \<open>
  Claim C9, as stated, fails for one configuration: \<open>Math.max(NaN, 1)\<close> is \<open>NaN\<close>, the idle
  window is then \<open>NaN\<close>, no comparison with it holds, and an entry updated one second ago is
  not reused.
\<close>

theorem idle_window_nan_counterexample:
  "bodyStripped exampleCollaborators exampleCtx
     \<lparr>session = Some (exampleSessionConfig\<lparr>cfg_idleMinutes := Some NaN\<rparr>)\<rparr> True = None \<and>
   map_option updatedAt (entry exampleCollaborators exampleCtx
     \<lparr>session = Some (exampleSessionConfig\<lparr>cfg_idleMinutes := Some NaN\<rparr>)\<rparr>)
     = Some (Num 1000000) \<and>
   js_le (js_sub (Num (nowFresh exampleReadings)) (Num 1000000)) (Num 60000) \<and>
   \<not> js_le (Num 1) (idleMinutes exampleCollaborators
     \<lparr>session = Some (exampleSessionConfig\<lparr>cfg_idleMinutes := Some NaN\<rparr>)\<rparr>) \<and>
   res_isNewSession (initSessionState exampleCollaborators exampleReadings exampleCtx
     \<lparr>session = Some (exampleSessionConfig\<lparr>cfg_idleMinutes := Some NaN\<rparr>)\<rparr> True) \<and>
   res_sessionId (initSessionState exampleCollaborators exampleReadings exampleCtx
     \<lparr>session = Some (exampleSessionConfig\<lparr>cfg_idleMinutes := Some NaN\<rparr>)\<rparr> True)
     = ''new-id''"
  by code_simp

text \<open>
  Claim C9, amended to the configurations whose \<open>idleMinutes\<close> (the default when none is
  configured) is not \<open>NaN\<close>. The idle window in force is then at least one minute, a value
  of zero or below is clamped to 1, and an entry whose \<open>updatedAt\<close> is at most 60000
  milliseconds behind the time read is reused when no reset is triggered.
\<close>

theorem idle_window_at_least_one_minute:
  assumes "(case optField cfg_idleMinutes (session cfg) of
              None \<Rightarrow> DEFAULT_IDLE_MINUTES c | Some m \<Rightarrow> m) \<noteq> NaN"
  shows "js_le (Num 1) (idleMinutes c cfg)
       \<and> (js_le (case optField cfg_idleMinutes (session cfg) of
                   None \<Rightarrow> DEFAULT_IDLE_MINUTES c | Some m \<Rightarrow> m) (Num 0) \<longrightarrow>
            idleMinutes c cfg = Num 1)
       \<and> (bodyStripped c ctx cfg ca = None \<longrightarrow> entry c ctx cfg = Some e \<longrightarrow>
            js_le (js_sub (Num (nowFresh w)) (updatedAt e)) (Num 60000) \<longrightarrow>
            res_sessionId (initSessionState c w ctx cfg ca) = sessionId e
          \<and> \<not> res_isNewSession (initSessionState c w ctx cfg ca))"
proof (intro conjI impI)
  show m: "js_le (Num 1) (idleMinutes c cfg)"
    unfolding idleMinutes_def by (rule Math_max_one[OF assms])
  show "idleMinutes c cfg = Num 1"
    if "js_le (case optField cfg_idleMinutes (session cfg) of
                   None \<Rightarrow> DEFAULT_IDLE_MINUTES c | Some m \<Rightarrow> m) (Num 0)"
    unfolding idleMinutes_def by (rule Math_max_clamp[OF that])
  assume b: "bodyStripped c ctx cfg ca = None" and e: "entry c ctx cfg = Some e"
    and l: "js_le (js_sub (Num (nowFresh w)) (updatedAt e)) (Num 60000)"
  have f: "freshEntry c w ctx cfg"
    using e idle_window_at_least_minute[OF l m] by (simp add: freshEntry_def)
  show "res_sessionId (initSessionState c w ctx cfg ca) = sessionId e"
    by (rule res_sessionId_reuse[OF b f e])
  show "\<not> res_isNewSession (initSessionState c w ctx cfg ca)"
    using b f by (simp add: res_isNewSession_eq)
qed


theorem idle_window_at_least_one_minute_witness:
  "(case optField cfg_idleMinutes
           (session \<lparr>session = Some (exampleSessionConfig\<lparr>cfg_idleMinutes := Some (Num 0)\<rparr>)\<rparr>) of
      None \<Rightarrow> DEFAULT_IDLE_MINUTES exampleCollaborators | Some m \<Rightarrow> m) = Num 0 \<and>
   idleMinutes exampleCollaborators
     \<lparr>session = Some (exampleSessionConfig\<lparr>cfg_idleMinutes := Some (Num 0)\<rparr>)\<rparr> = Num 1 \<and>
   bodyStripped exampleCollaborators exampleCtx
     \<lparr>session = Some (exampleSessionConfig\<lparr>cfg_idleMinutes := Some (Num 0)\<rparr>)\<rparr> True = None \<and>
   js_le (js_sub (Num (nowFresh exampleReadings)) (Num 1000000)) (Num 60000) \<and>
   res_sessionId (initSessionState exampleCollaborators exampleReadings exampleCtx
     \<lparr>session = Some (exampleSessionConfig\<lparr>cfg_idleMinutes := Some (Num 0)\<rparr>)\<rparr> True)
     = ''stored-id'' \<and>
   \<not> res_isNewSession (initSessionState exampleCollaborators exampleReadings exampleCtx
     \<lparr>session = Some (exampleSessionConfig\<lparr>cfg_idleMinutes := Some (Num 0)\<rparr>)\<rparr> True)"
proof -
  have v: "(case optField cfg_idleMinutes
           (session \<lparr>session = Some (exampleSessionConfig\<lparr>cfg_idleMinutes := Some (Num 0)\<rparr>)\<rparr>) of
      None \<Rightarrow> DEFAULT_IDLE_MINUTES exampleCollaborators | Some m \<Rightarrow> m) = Num 0"
    by code_simp
  then have n: "(case optField cfg_idleMinutes
           (session \<lparr>session = Some (exampleSessionConfig\<lparr>cfg_idleMinutes := Some (Num 0)\<rparr>)\<rparr>) of
      None \<Rightarrow> DEFAULT_IDLE_MINUTES exampleCollaborators | Some m \<Rightarrow> m) \<noteq> NaN"
    by simp
  have b: "bodyStripped exampleCollaborators exampleCtx
     \<lparr>session = Some (exampleSessionConfig\<lparr>cfg_idleMinutes := Some (Num 0)\<rparr>)\<rparr> True = None"
    by code_simp
  have e: "entry exampleCollaborators exampleCtx
     \<lparr>session = Some (exampleSessionConfig\<lparr>cfg_idleMinutes := Some (Num 0)\<rparr>)\<rparr>
     = Some (blankEntry\<lparr>sessionId := ''stored-id'', updatedAt := Num 1000000\<rparr>)"
    by code_simp
  have l: "js_le (js_sub (Num (nowFresh exampleReadings)) (Num 1000000)) (Num 60000)"
    by code_simp
  have s: "sessionId (blankEntry\<lparr>sessionId := ''stored-id'', updatedAt := Num 1000000\<rparr>) = ''stored-id''"
      "updatedAt (blankEntry\<lparr>sessionId := ''stored-id'', updatedAt := Num 1000000\<rparr>) = Num 1000000"
    by (simp_all add: blankEntry_def)
  note r = idle_window_at_least_one_minute[OF n, of exampleCtx True
      "blankEntry\<lparr>sessionId := ''stored-id'', updatedAt := Num 1000000\<rparr>" exampleReadings]
  show ?thesis using r v b e l s by simp
qed

lemma forkAttempt_open_throws:
  "SessionManager_open c f = Throws \<Longrightarrow> forkAttempt c w f = Throws"
  by (simp add: forkAttempt_def forkBranch_def)

lemma forkAttempt_leaf_throws:
  "getLeafId c f = Throws \<Longrightarrow> forkAttempt c w f = Throws"
  by (simp add: forkAttempt_def forkBranch_def split: attempt.splits)

lemma forkAttempt_write_throws:
  "forkBranch c f = Returns None \<Longrightarrow>
   getSessionDir c f = Throws \<or> getCwd c f = Throws \<or> (\<forall>p. \<not> writeFileSync c p) \<Longrightarrow>
   forkAttempt c w f = Throws"
  by (auto simp: forkAttempt_def Let_def split: attempt.splits)

text \<open>
  Claim C7. In a new-session resolution whose parent session key names a stored entry:
  if the parent's transcript path is missing or empty, or the file does not exist, or the
  \<open>try\<close> block throws at some step, then \<open>forkSessionFromParent\<close> returns null and
  \<open>initSessionState\<close> returns all the same, with the session id just generated in the
  result, in the session entry and in the store under the session key, and with the
  transcript path resolved for that id.
\<close>

theorem fork_failure_not_fatal:
  assumes "res_isNewSession (initSessionState c w ctx cfg ca)"
    and "ParentSessionKey ctx = Some pk"
    and "map_of (sessionStore c ctx cfg) (trim pk) = Some parentEntry"
    and "case resolveSessionFilePath c (sessionId parentEntry) parentEntry of
           None \<Rightarrow> True
         | Some f \<Rightarrow> f = [] \<or> \<not> existsSync c f \<or> forkAttempt c w f = Throws"
  shows "forkSessionFromParent c w parentEntry = None
       \<and> res_isNewSession (initSessionState c w ctx cfg ca)
       \<and> res_sessionId (initSessionState c w ctx cfg ca) = newId w
       \<and> sessionId (res_sessionEntry (initSessionState c w ctx cfg ca)) = newId w
       \<and> sessionFile (res_sessionEntry (initSessionState c w ctx cfg ca))
           = Some (resolveSessionTranscriptPath c (newId w) (agentId c ctx cfg) (MessageThreadId ctx))
       \<and> map_option sessionId
           (map_of (res_sessionStore (initSessionState c w ctx cfg ca))
              (res_sessionKey (initSessionState c w ctx cfg ca))) = Some (newId w)"
proof -
  have fk: "forkSessionFromParent c w parentEntry = None"
    using assms(4) by (auto simp: forkSessionFromParent_def split: option.splits)
  have nr: "\<not> (bodyStripped c ctx cfg ca = None \<and> freshEntry c w ctx cfg)"
    using assms(1) by (simp add: res_isNewSession_eq)
  have sid: "res_sessionId (initSessionState c w ctx cfg ca) = newId w"
    using res_sessionId_new[OF assms(1)] assms(2,3) fk by auto
  have es: "sessionId (res_sessionEntry (initSessionState c w ctx cfg ca)) = newId w"
    using sid by (simp add: res_entry_sessionId)
  have sf: "sessionFile (res_sessionEntry (initSessionState c w ctx cfg ca))
           = Some (resolveSessionTranscriptPath c (newId w) (agentId c ctx cfg) (MessageThreadId ctx))"
    using nr assms(2,3) fk
    by (auto simp: initSessionState_def Let_def sessionId_groupMetadata sessionId_entryLiteral
        sessionFile_groupMetadata sessionFile_entryLiteral_new truthyStr_def
        split: option.splits)
  have st: "map_option sessionId
           (map_of (res_sessionStore (initSessionState c w ctx cfg ca))
              (res_sessionKey (initSessionState c w ctx cfg ca)))
        = Some (sessionId (res_sessionEntry (initSessionState c w ctx cfg ca)))"
    by (simp add: initSessionState_def Let_def AList.update_conv')
  show ?thesis using fk assms(1) sid es sf st by simp
qed

theorem fork_failure_not_fatal_witness:
  "res_isNewSession (initSessionState exampleCollaborators exampleReadings
     (exampleCtx\<lparr>Body := Some ''/new'', ParentSessionKey := Some ''agent:default:parent''\<rparr>)
     \<lparr>session = None\<rparr> True) \<and>
   map_option sessionFile (map_of (sessionStore exampleCollaborators
     (exampleCtx\<lparr>Body := Some ''/new'', ParentSessionKey := Some ''agent:default:parent''\<rparr>)
     \<lparr>session = None\<rparr>) (trim ''agent:default:parent'')) = Some (Some ''/s/parent.jsonl'') \<and>
   \<not> existsSync exampleCollaborators ''/s/parent.jsonl'' \<and>
   res_sessionId (initSessionState exampleCollaborators exampleReadings
     (exampleCtx\<lparr>Body := Some ''/new'', ParentSessionKey := Some ''agent:default:parent''\<rparr>)
     \<lparr>session = None\<rparr> True) = ''new-id'' \<and>
   sessionFile (res_sessionEntry (initSessionState exampleCollaborators exampleReadings
     (exampleCtx\<lparr>Body := Some ''/new'', ParentSessionKey := Some ''agent:default:parent''\<rparr>)
     \<lparr>session = None\<rparr> True)) = Some ''/s/agents/default/sessions/new-id.jsonl''"
proof -
  have n: "res_isNewSession (initSessionState exampleCollaborators exampleReadings
     (exampleCtx\<lparr>Body := Some ''/new'', ParentSessionKey := Some ''agent:default:parent''\<rparr>)
     \<lparr>session = None\<rparr> True)"
    by code_simp
  have p: "ParentSessionKey
     (exampleCtx\<lparr>Body := Some ''/new'', ParentSessionKey := Some ''agent:default:parent''\<rparr>)
     = Some ''agent:default:parent''"
    by simp
  have m: "map_of (sessionStore exampleCollaborators
     (exampleCtx\<lparr>Body := Some ''/new'', ParentSessionKey := Some ''agent:default:parent''\<rparr>)
     \<lparr>session = None\<rparr>) (trim ''agent:default:parent'')
     = Some (blankEntry\<lparr>sessionId := ''parent-id'', updatedAt := Num 1000000,
                   sessionFile := Some ''/s/parent.jsonl''\<rparr>)"
    by code_simp
  have x: "\<not> existsSync exampleCollaborators ''/s/parent.jsonl''"
    by code_simp
  have rp: "resolveSessionFilePath exampleCollaborators
      (sessionId (blankEntry\<lparr>sessionId := ''parent-id'', updatedAt := Num 1000000,
                   sessionFile := Some ''/s/parent.jsonl''\<rparr>))
      (blankEntry\<lparr>sessionId := ''parent-id'', updatedAt := Num 1000000,
                   sessionFile := Some ''/s/parent.jsonl''\<rparr>) = Some ''/s/parent.jsonl''"
    by code_simp
  have fl: "case resolveSessionFilePath exampleCollaborators
      (sessionId (blankEntry\<lparr>sessionId := ''parent-id'', updatedAt := Num 1000000,
                   sessionFile := Some ''/s/parent.jsonl''\<rparr>))
      (blankEntry\<lparr>sessionId := ''parent-id'', updatedAt := Num 1000000,
                   sessionFile := Some ''/s/parent.jsonl''\<rparr>) of
           None \<Rightarrow> True
         | Some f \<Rightarrow> f = [] \<or> \<not> existsSync exampleCollaborators f
                      \<or> forkAttempt exampleCollaborators exampleReadings f = Throws"
    unfolding rp using x by simp
  have a: "agentId exampleCollaborators
     (exampleCtx\<lparr>Body := Some ''/new'', ParentSessionKey := Some ''agent:default:parent''\<rparr>)
     \<lparr>session = None\<rparr> = ''default''"
    by code_simp
  have i: "newId exampleReadings = ''new-id''" by (simp add: exampleReadings_def)
  have tp: "resolveSessionTranscriptPath exampleCollaborators ''new-id'' ''default''
      (MessageThreadId
        (exampleCtx\<lparr>Body := Some ''/new'', ParentSessionKey := Some ''agent:default:parent''\<rparr>))
      = ''/s/agents/default/sessions/new-id.jsonl''"
    by code_simp
  have ps: "sessionFile (blankEntry\<lparr>sessionId := ''parent-id'', updatedAt := Num 1000000,
                   sessionFile := Some ''/s/parent.jsonl''\<rparr>) = Some ''/s/parent.jsonl''"
    by (simp add: blankEntry_def)
  note r = fork_failure_not_fatal[OF n p m fl]
  show ?thesis using r n m x a i tp ps by simp
qed

end
